theory Spec2Isabelle
  imports Complex_Main "HOL-Library.Multiset"
begin

section \<open>Crossfilter: facets, plot plugins and the filter pipeline\<close>

text \<open>
  A shallow embedding of \<^verbatim>\<open>bokeh/crossfilter/models.py\<close>. Exceptions are values of
  \<open>error\<close>; a function that can raise returns \<open>error + 'a\<close> (\<open>Inl\<close> the exception).
  A stateful method of \<^verbatim>\<open>CrossFilter\<close> returns the state it leaves behind together with
  the exception it raised, if any.
\<close>

datatype error = KeyError | TypeError | IndexError | AttributeError | ValueError

subsection \<open>Data frames\<close>

text \<open>
  A pandas \<^verbatim>\<open>DataFrame\<close>: its column labels and its rows; a row gives the cell of every
  column. The cell type \<open>'v\<close> is any linearly ordered type (numbers, strings). Missing
  cells (NaN) are not modelled.
\<close>

type_synonym 'v row = "string \<Rightarrow> 'v"

record 'v dataframe =
  df_columns :: "string list"
  df_rows :: "'v row list"

text \<open>\<^verbatim>\<open>df[c]\<close>: the column's values in row order, \<^verbatim>\<open>KeyError\<close> for an unknown label.\<close>

definition column :: "'v dataframe \<Rightarrow> string \<Rightarrow> error + 'v list" where
  "column df c =
     (if c \<in> set (df_columns df) then Inr (map (\<lambda>r. r c) (df_rows df)) else Inl KeyError)"

text \<open>\<^verbatim>\<open>df[mask]\<close>: the rows whose entry of the boolean mask is true.\<close>

definition select_rows :: "'v dataframe \<Rightarrow> bool list \<Rightarrow> 'v dataframe" where
  "select_rows df msk = df\<lparr>df_rows := map fst (filter snd (zip (df_rows df) msk))\<rparr>"

text \<open>\<^verbatim>\<open>df[cond(df[c])]\<close>: filter the rows by a condition on one column.\<close>

definition mask_filter :: "'v dataframe \<Rightarrow> string \<Rightarrow> ('v \<Rightarrow> bool) \<Rightarrow> error + 'v dataframe" where
  "mask_filter df c cond =
     (case column df c of
        Inl e \<Rightarrow> Inl e
      | Inr vals \<Rightarrow> Inr (select_rows df (map cond vals)))"

text \<open>\<^verbatim>\<open>df.empty\<close>: true when any axis has length 0.\<close>

definition df_empty :: "'v dataframe \<Rightarrow> bool" where
  "df_empty df = (df_columns df = [] \<or> df_rows df = [])"

text \<open>\<^verbatim>\<open>np.unique\<close>: the sorted distinct values.\<close>

definition np_unique :: "('v::linorder) list \<Rightarrow> 'v list" where
  "np_unique vals = sort (remdups vals)"

subsection \<open>Facets\<close>

text \<open>
  \<^verbatim>\<open>DiscreteFacet\<close> and its subclass \<^verbatim>\<open>ContinuousFacet\<close>. The value of a continuous
  facet is the category label that \<^verbatim>\<open>pd.qcut\<close> gave its bin; \<open>bins\<close> is the pair
  \<^verbatim>\<open>[start, stop]\<close>, either of which may be \<^verbatim>\<open>None\<close>.
\<close>

datatype 'v facet =
    DiscreteFacet (field: string) (label: string) (dvalue: 'v)
  | ContinuousFacet (field: string) (label: string) (cvalue: string)
      (bins: "'v option \<times> 'v option")

text \<open>The constructors: the label defaults to \<^verbatim>\<open>str(value)\<close>.\<close>

definition new_DiscreteFacet :: "('v \<Rightarrow> string) \<Rightarrow> string \<Rightarrow> 'v \<Rightarrow> 'v facet" where
  "new_DiscreteFacet str fld v = DiscreteFacet fld (str v) v"

definition new_ContinuousFacet :: "string \<Rightarrow> string \<Rightarrow> 'v option \<times> 'v option \<Rightarrow> 'v facet" where
  "new_ContinuousFacet fld v bs = ContinuousFacet fld v v bs"

text \<open>\<^verbatim>\<open>__repr__\<close>: \<^verbatim>\<open>"%s:%s" % (self.field, self.label)\<close>.\<close>

definition facet_repr :: "'v facet \<Rightarrow> string" where
  "facet_repr f = field f @ '':'' @ label f"

text \<open>\<^verbatim>\<open>DiscreteFacet.filter\<close> and \<^verbatim>\<open>ContinuousFacet.filter\<close>.\<close>

fun facet_filter :: "('v::linorder) facet \<Rightarrow> 'v dataframe \<Rightarrow> error + 'v dataframe" where
  "facet_filter (DiscreteFacet fld lbl v) df = mask_filter df fld (\<lambda>x. x = v)"
| "facet_filter (ContinuousFacet fld lbl v (lo, hi)) df =
     (case (case lo of None \<Rightarrow> Inr df | Some b \<Rightarrow> mask_filter df fld (\<lambda>x. x > b)) of
        Inl e \<Rightarrow> Inl e
      | Inr df1 \<Rightarrow> (case hi of None \<Rightarrow> Inr df1 | Some b \<Rightarrow> mask_filter df1 fld (\<lambda>x. x \<le> b)))"

text \<open>
  Modelled from the spec: \<^verbatim>\<open>cross\<close> of \<^verbatim>\<open>crossfilter/plotting.py\<close>, which is not among the
  sources. For each existing prefix and each new facet, in that order, it emits
  \<^verbatim>\<open>prefix + [facet]\<close>.
\<close>

definition cross :: "'a list list \<Rightarrow> 'a list \<Rightarrow> 'a list list" where
  "cross start facets = concat (map (\<lambda>x. map (\<lambda>n. x @ [n]) facets) start)"

subsection \<open>Column descriptors\<close>

datatype col_type = DiscreteColumn | TimeColumn | ContinuousColumn

text \<open>An entry of \<^verbatim>\<open>CrossFilter.columns\<close>; the summary statistics play no part here.\<close>

record descriptor =
  name :: string
  ctype :: col_type

text \<open>\<^verbatim>\<open>column_descriptor_dict\<close>: a later descriptor of the same name replaces an earlier one.\<close>

definition column_descriptor_dict :: "descriptor list \<Rightarrow> (string \<rightharpoonup> descriptor)" where
  "column_descriptor_dict cols = fold (\<lambda>x m. m(name x \<mapsto> x)) cols Map.empty"

subsection \<open>Building the facets of a dimension\<close>

text \<open>
  \<^verbatim>\<open>pd.qcut(series, 4, retbins=True)\<close> belongs to pandas: it is a parameter \<open>qcut\<close>, which
  returns the labels of the categories and the bin edges, or raises.
\<close>

type_synonym 'v qcut = "'v list \<Rightarrow> nat \<Rightarrow> error + string list \<times> 'v list"

text \<open>
  The pairs \<^verbatim>\<open>[bins[idx], bins[idx + 1]]\<close> with the first lower bound set to \<^verbatim>\<open>None\<close>;
  \<^verbatim>\<open>bins[0][0] = None\<close> raises \<^verbatim>\<open>IndexError\<close> when there is no pair.
\<close>

definition bin_pairs :: "'v list \<Rightarrow> error + ('v option \<times> 'v option) list" where
  "bin_pairs edges =
     (case map (\<lambda>idx. (Some (edges ! idx), Some (edges ! (idx + 1)))) [0..<length edges - 1] of
        [] \<Rightarrow> Inl IndexError
      | b # bs \<Rightarrow> Inr ((None, snd b) # bs))"

text \<open>The facets of one column: the body of the loop of \<^verbatim>\<open>make_facets\<close>.\<close>

definition field_facets ::
  "('v \<Rightarrow> string) \<Rightarrow> 'v qcut \<Rightarrow> descriptor list \<Rightarrow> ('v::linorder) dataframe \<Rightarrow> string
     \<Rightarrow> error + 'v facet list" where
  "field_facets str qcut cols df fld =
     (case column_descriptor_dict cols fld of
        None \<Rightarrow> Inl KeyError
      | Some d \<Rightarrow>
          (case column df fld of
             Inl e \<Rightarrow> Inl e
           | Inr vals \<Rightarrow>
               if ctype d = DiscreteColumn
               then Inr (map (new_DiscreteFacet str fld) (np_unique vals))
               else (case qcut vals 4 of
                       Inl e \<Rightarrow> Inl e
                     | Inr (cats, edges) \<Rightarrow>
                         (case bin_pairs edges of
                            Inl e \<Rightarrow> Inl e
                          | Inr bs \<Rightarrow>
                              Inr (map (\<lambda>(b, v). new_ContinuousFacet fld v b) (zip bs cats))))))"

text \<open>The loop of \<^verbatim>\<open>make_facets\<close> over the columns of the dimension.\<close>

fun make_facets_loop ::
  "('v \<Rightarrow> string) \<Rightarrow> 'v qcut \<Rightarrow> descriptor list \<Rightarrow> ('v::linorder) dataframe \<Rightarrow> string list
     \<Rightarrow> 'v facet list list \<Rightarrow> error + 'v facet list list" where
  "make_facets_loop str qcut cols df [] all_facets = Inr all_facets"
| "make_facets_loop str qcut cols df (fld # flds) all_facets =
     (case field_facets str qcut cols df fld of
        Inl e \<Rightarrow> Inl e
      | Inr ffs \<Rightarrow> make_facets_loop str qcut cols df flds (cross all_facets ffs))"

text \<open>\<^verbatim>\<open>facet_data\<close>: the facets applied one after the other.\<close>

fun facet_data :: "('v::linorder) facet list \<Rightarrow> 'v dataframe \<Rightarrow> error + 'v dataframe" where
  "facet_data [] df = Inr df"
| "facet_data (f # fs) df =
     (case facet_filter f df of Inl e \<Rightarrow> Inl e | Inr df1 \<Rightarrow> facet_data fs df1)"

subsection \<open>The application state\<close>

datatype plot_type = Line | Scatter | Bar

text \<open>
  A range of an axis: categorical factors, or numeric bounds (\<open>None\<close> where pandas
  gives NaN for an empty column).
\<close>

datatype 'v range =
    FactorRange "'v list"
  | DataRange1d "'v option" "'v option"
  | Range1d "'v option" "'v option"

text \<open>
  A figure of the plotting toolkit, as far as this module writes it: the title, the
  glyph drawn from a data source (none on a blank figure), and which axes
  \<^verbatim>\<open>hide_axes\<close> has hidden.
\<close>

datatype 'v glyph =
    ScatterGlyph string string "'v dataframe"
  | LineGlyph string string "'v dataframe"
  | RectGlyph string "'v list" string "'v dataframe"

record 'v figure =
  fig_title :: string
  fig_glyph :: "'v glyph option"
  xaxis_hidden :: bool
  yaxis_hidden :: bool

text \<open>What \<^verbatim>\<open>make_plot\<close> returns: one figure, a \<^verbatim>\<open>GridPlot\<close>, or \<^verbatim>\<open>Tabs\<close> of panels.\<close>

datatype 'v page = Plot "'v figure" | GridPlot "'v figure list list" nat

datatype 'v display = Page "'v page" | Tabs "(string \<times> 'v page) list"

text \<open>
  The value of a filter widget: a \<^verbatim>\<open>MultiSelect\<close> holds a list, a \<^verbatim>\<open>Select\<close> a string;
  the widget of a continuous column is a histogram figure, which has no value.
\<close>

datatype 'v selection = SelString string | SelList "'v list"

datatype 'v widget = InputWidget "'v selection" | HistogramPlot

text \<open>A filter source: the bin centers of the histogram and the selected bin indices.\<close>

record 'v filter_source =
  centers :: "'v list"
  selected :: "nat list"

text \<open>
  The properties of \<^verbatim>\<open>CrossFilter\<close> that its methods read or write. \<open>cf_df\<close> is the
  attribute \<^verbatim>\<open>_df\<close>, which only the process that created the application has.
\<close>

record 'v crossfilter =
  cf_columns :: "descriptor list"
  cf_df :: "'v dataframe option"
  cf_data :: "'v dataframe"
  cf_filtered_data :: "'v dataframe"
  cf_filter_sources :: "string \<rightharpoonup> 'v filter_source"
  cf_filtering_columns :: "string list"
  cf_filter_widgets :: "string \<rightharpoonup> 'v widget"
  cf_facet_x :: "string list"
  cf_facet_y :: "string list"
  cf_facet_tab :: "string list"
  cf_plot :: "'v display option"
  cf_x_range :: "'v range option"
  cf_y_range :: "'v range option"
  cf_plot_type :: plot_type
  cf_x :: string
  cf_y :: string
  cf_agg :: string

text \<open>The properties \<^verbatim>\<open>df\<close> and \<^verbatim>\<open>filtered_df\<close>.\<close>

definition df :: "'v crossfilter \<Rightarrow> 'v dataframe" where
  "df cf = (case cf_df cf of Some d \<Rightarrow> d | None \<Rightarrow> cf_data cf)"

definition filtered_df :: "'v crossfilter \<Rightarrow> 'v dataframe" where
  "filtered_df cf = (case cf_df cf of Some d \<Rightarrow> d | None \<Rightarrow> cf_filtered_data cf)"

text \<open>
  The functions this module calls that are not among the sources: Python's \<^verbatim>\<open>str\<close> on
  a cell, \<^verbatim>\<open>pd.qcut\<close>, the bar sources and the histogram source of
  \<^verbatim>\<open>crossfilter/plotting.py\<close>, and the arithmetic on cells (\<^verbatim>\<open>v - bar_width\<close>,
  \<^verbatim>\<open>v / 2.0\<close>, the number \<^verbatim>\<open>0\<close>). The module runs under Python 2 and Python 3 (it
  imports \<^verbatim>\<open>six\<close>); \<open>tk_python\<close> says which.
\<close>

datatype python = Python2 | Python3

record 'v toolkit =
  tk_python :: python
  tk_str :: "'v \<Rightarrow> string"
  tk_qcut :: "'v qcut"
  make_continuous_bar_source :: "'v dataframe \<Rightarrow> string \<Rightarrow> string \<Rightarrow> string \<Rightarrow> error + 'v dataframe"
  make_categorical_bar_source :: "'v dataframe \<Rightarrow> string \<Rightarrow> string \<Rightarrow> string \<Rightarrow> error + 'v dataframe"
  make_histogram_source :: "'v list \<Rightarrow> 'v filter_source"
  minus_bar_width :: "'v \<Rightarrow> 'v"
  halve :: "'v \<Rightarrow> 'v"
  zero :: "'v"

text \<open>\<^verbatim>\<open>make_facets\<close>: the facet combinations of the dimension \<^verbatim>\<open>'x'\<close>, \<^verbatim>\<open>'y'\<close> or other.\<close>

definition make_facets ::
  "'v toolkit \<Rightarrow> ('v::linorder) crossfilter \<Rightarrow> string \<Rightarrow> error + 'v facet list list" where
  "make_facets tk cf dimension =
     make_facets_loop (tk_str tk) (tk_qcut tk) (cf_columns cf) (df cf)
       (if dimension = ''x'' then cf_facet_x cf
        else if dimension = ''y'' then cf_facet_y cf
        else cf_facet_tab cf)
       [[]]"

subsection \<open>Plot plugins\<close>

text \<open>
  An instance of \<^verbatim>\<open>CrossFilterPlugin\<close> or of a subclass; \<open>p_cls\<close> tells which
  (\<^verbatim>\<open>plot_map\<close>). \<open>p_agg\<close> is read by the bar plugin only.
\<close>

record 'v plugin =
  p_cls :: plot_type
  p_x :: string
  p_y :: string
  p_agg :: string
  p_source :: "'v dataframe"
  p_facet :: bool
  p_col_meta :: "string \<rightharpoonup> descriptor"
  p_valid_plot :: bool
  p_title :: string

text \<open>The property \<^verbatim>\<open>title\<close> of the base class and its override in \<^verbatim>\<open>CrossBarPlugin\<close>.\<close>

definition CrossFilterPlugin_title :: "'v plugin \<Rightarrow> string" where
  "CrossFilterPlugin_title p = p_x p @ '' by '' @ p_y p"

definition CrossBarPlugin_title :: "'v plugin \<Rightarrow> string" where
  "CrossBarPlugin_title p = p_agg p @ ''('' @ p_y p @ '') by '' @ p_x p"

definition title :: "'v plugin \<Rightarrow> string" where
  "title p = (case p_cls p of Bar \<Rightarrow> CrossBarPlugin_title p | _ \<Rightarrow> CrossFilterPlugin_title p)"

text \<open>
  \<^verbatim>\<open>__init__\<close>: the plugin of class \<open>cls\<close> for the application \<open>cf\<close>; a title that is
  \<^verbatim>\<open>None\<close> or empty is replaced by the derived one.
\<close>

definition new_plugin ::
  "plot_type \<Rightarrow> 'v crossfilter \<Rightarrow> 'v dataframe \<Rightarrow> string option \<Rightarrow> bool \<Rightarrow> 'v plugin" where
  "new_plugin cls cf src ttl fct =
     (let p = \<lparr>p_cls = cls, p_x = cf_x cf, p_y = cf_y cf, p_agg = cf_agg cf, p_source = src,
                p_facet = fct, p_col_meta = column_descriptor_dict (cf_columns cf),
                p_valid_plot = True, p_title = []\<rparr>
      in p\<lparr>p_title := (case ttl of None \<Rightarrow> title p | Some t \<Rightarrow> if t = [] then title p else t)\<rparr>)"

text \<open>The properties \<^verbatim>\<open>x_type\<close> and \<^verbatim>\<open>y_type\<close>.\<close>

definition x_type :: "'v plugin \<Rightarrow> error + col_type" where
  "x_type p = (case p_col_meta p (p_x p) of None \<Rightarrow> Inl KeyError | Some d \<Rightarrow> Inr (ctype d))"

definition y_type :: "'v plugin \<Rightarrow> error + col_type" where
  "y_type p = (case p_col_meta p (p_y p) of None \<Rightarrow> Inl KeyError | Some d \<Rightarrow> Inr (ctype d))"

text \<open>\<^verbatim>\<open>CrossFilterPlugin.validate_plot\<close>.\<close>

definition CrossFilterPlugin_validate_plot :: "'v plugin \<Rightarrow> error + 'v plugin" where
  "CrossFilterPlugin_validate_plot p =
     (if \<not> p_facet p then
        (case column (p_source p) (p_x p) of
           Inl e \<Rightarrow> Inl e
         | Inr xs \<Rightarrow>
             if length xs = 0
             then Inr (p\<lparr>p_title := ''All data is filtered out.'', p_valid_plot := False\<rparr>)
             else (case column (p_source p) (p_y p) of
                     Inl e \<Rightarrow> Inl e
                   | Inr ys \<Rightarrow>
                       if length ys = 0
                       then Inr (p\<lparr>p_title := ''All data is filtered out.'',
                                   p_valid_plot := False\<rparr>)
                       else Inr p))
      else Inr p)"

text \<open>\<^verbatim>\<open>CrossBarPlugin.validate_plot\<close>: the base check, then three checks of its own.\<close>

definition CrossBarPlugin_validate_plot :: "'v plugin \<Rightarrow> error + 'v plugin" where
  "CrossBarPlugin_validate_plot p =
     (case CrossFilterPlugin_validate_plot p of
        Inl e \<Rightarrow> Inl e
      | Inr p1 \<Rightarrow>
          (case y_type p1 of
             Inl e \<Rightarrow> Inl e
           | Inr yt \<Rightarrow>
               (let p2 = (if yt = DiscreteColumn
                          then p1\<lparr>p_title := ''Bar does not support discrete y column'',
                                  p_valid_plot := False\<rparr>
                          else p1);
                    p3 = (if p_x p2 = p_y p2
                          then p2\<lparr>p_title := ''Bar does not support x and y of same column'',
                                  p_valid_plot := False\<rparr>
                          else p2);
                    p4 = (if df_empty (p_source p3)
                          then p3\<lparr>p_title := ''All data is filtered out'',
                                  p_valid_plot := False\<rparr>
                          else p3)
                in Inr p4)))"

definition validate_plot :: "'v plugin \<Rightarrow> error + 'v plugin" where
  "validate_plot p =
     (case p_cls p of
        Bar \<Rightarrow> CrossBarPlugin_validate_plot p
      | _ \<Rightarrow> CrossFilterPlugin_validate_plot p)"

text \<open>
  \<^verbatim>\<open>make_plot\<close> of the base class (a scatter), of \<^verbatim>\<open>CrossLinePlugin\<close> and of
  \<^verbatim>\<open>CrossBarPlugin\<close>, which first replaces the source by the bar source
  (\<^verbatim>\<open>transform_data\<close>) and centers each rectangle at half its height.
\<close>

definition transform_data :: "'v toolkit \<Rightarrow> 'v plugin \<Rightarrow> error + 'v plugin" where
  "transform_data tk p =
     (case y_type p of
        Inl e \<Rightarrow> Inl e
      | Inr yt \<Rightarrow>
          (case (if yt = DiscreteColumn
                 then make_continuous_bar_source tk (p_source p) (p_x p) (p_y p) (p_agg p)
                 else make_categorical_bar_source tk (p_source p) (p_x p) (p_y p) (p_agg p)) of
             Inl e \<Rightarrow> Inl e
           | Inr src \<Rightarrow> Inr (p\<lparr>p_source := src\<rparr>)))"

definition plugin_make_plot :: "'v toolkit \<Rightarrow> 'v plugin \<Rightarrow> 'v figure \<Rightarrow> error + 'v figure" where
  "plugin_make_plot tk p plot =
     (case p_cls p of
        Scatter \<Rightarrow> Inr (plot\<lparr>fig_glyph := Some (ScatterGlyph (p_x p) (p_y p) (p_source p))\<rparr>)
      | Line \<Rightarrow> Inr (plot\<lparr>fig_glyph := Some (LineGlyph (p_x p) (p_y p) (p_source p))\<rparr>)
      | Bar \<Rightarrow>
          (case transform_data tk p of
             Inl e \<Rightarrow> Inl e
           | Inr p1 \<Rightarrow>
               (case column (p_source p1) (p_y p1) of
                  Inl e \<Rightarrow> Inl e
                | Inr vals \<Rightarrow>
                    Inr (plot\<lparr>fig_glyph :=
                      Some (RectGlyph (p_x p1) (map (halve tk) vals) (p_y p1) (p_source p1))\<rparr>))))"

text \<open>\<^verbatim>\<open>make_figure\<close>: a blank figure carrying the plugin's title.\<close>

definition make_figure :: "'v plugin \<Rightarrow> 'v figure" where
  "make_figure p =
     \<lparr>fig_title = p_title p, fig_glyph = None, xaxis_hidden = False, yaxis_hidden = False\<rparr>"

text \<open>\<^verbatim>\<open>get_plot\<close>: validate, make the blank figure, plot into it when valid.\<close>

definition get_plot :: "'v toolkit \<Rightarrow> 'v plugin \<Rightarrow> error + 'v figure" where
  "get_plot tk p =
     (case validate_plot p of
        Inl e \<Rightarrow> Inl e
      | Inr p1 \<Rightarrow>
          if p_valid_plot p1 then plugin_make_plot tk p1 (make_figure p1)
          else Inr (make_figure p1))"

text \<open>The minimum and maximum of a column; pandas gives NaN for an empty one.\<close>

definition series_min :: "('v::linorder) list \<Rightarrow> 'v option" where
  "series_min vals = (case vals of [] \<Rightarrow> None | v # vs \<Rightarrow> Some (fold min vs v))"

definition series_max :: "('v::linorder) list \<Rightarrow> 'v option" where
  "series_max vals = (case vals of [] \<Rightarrow> None | v # vs \<Rightarrow> Some (fold max vs v))"

text \<open>The range of one axis in \<^verbatim>\<open>CrossFilterPlugin.make_xy_ranges\<close>.\<close>

definition axis_range ::
  "(string \<rightharpoonup> descriptor) \<Rightarrow> ('v::linorder) dataframe \<Rightarrow> string \<Rightarrow> error + 'v range" where
  "axis_range col_meta d c =
     (case col_meta c of
        None \<Rightarrow> Inl KeyError
      | Some m \<Rightarrow>
          (case column d c of
             Inl e \<Rightarrow> Inl e
           | Inr vals \<Rightarrow>
               if ctype m = DiscreteColumn then Inr (FactorRange (sort (remdups vals)))
               else Inr (DataRange1d (series_min vals) (series_max vals))))"

definition CrossFilterPlugin_make_xy_ranges ::
  "('v::linorder) crossfilter \<Rightarrow> error + 'v range \<times> 'v range" where
  "CrossFilterPlugin_make_xy_ranges cf =
     (case axis_range (column_descriptor_dict (cf_columns cf)) (df cf) (cf_x cf) of
        Inl e \<Rightarrow> Inl e
      | Inr xr \<Rightarrow>
          (case axis_range (column_descriptor_dict (cf_columns cf)) (df cf) (cf_y cf) of
             Inl e \<Rightarrow> Inl e
           | Inr yr \<Rightarrow> Inr (xr, yr)))"

text \<open>\<^verbatim>\<open>CrossBarPlugin.make_xy_ranges\<close>; \<^verbatim>\<open>np.max\<close> of no values raises \<^verbatim>\<open>ValueError\<close>.\<close>

definition CrossBarPlugin_make_xy_ranges ::
  "'v toolkit \<Rightarrow> ('v::linorder) crossfilter \<Rightarrow> error + 'v range \<times> 'v range" where
  "CrossBarPlugin_make_xy_ranges tk cf =
     (case column_descriptor_dict (cf_columns cf) (cf_x cf) of
        None \<Rightarrow> Inl KeyError
      | Some m \<Rightarrow>
          (case (if ctype m \<noteq> DiscreteColumn
                 then (case make_continuous_bar_source tk (df cf) (cf_x cf) (cf_y cf) (cf_agg cf) of
                         Inl e \<Rightarrow> Inl e
                       | Inr src \<Rightarrow>
                           (case column (df cf) (cf_x cf) of
                              Inl e \<Rightarrow> Inl e
                            | Inr vals \<Rightarrow>
                                Inr (src, Range1d (map_option (minus_bar_width tk) (series_min vals))
                                            (map_option (minus_bar_width tk) (series_max vals)))))
                 else (case make_categorical_bar_source tk (df cf) (cf_x cf) (cf_y cf) (cf_agg cf) of
                         Inl e \<Rightarrow> Inl e
                       | Inr src \<Rightarrow>
                           (case column src (cf_x cf) of
                              Inl e \<Rightarrow> Inl e
                            | Inr factors \<Rightarrow> Inr (src, FactorRange factors)))) of
             Inl e \<Rightarrow> Inl e
           | Inr (src, xr) \<Rightarrow>
               (case column src (cf_y cf) of
                  Inl e \<Rightarrow> Inl e
                | Inr ys \<Rightarrow>
                    if ys = [] then Inl ValueError
                    else Inr (xr, Range1d (Some (zero tk)) (series_max ys)))))"

text \<open>\<^verbatim>\<open>get_plot_class\<close> and the dispatch of the static method \<^verbatim>\<open>make_xy_ranges\<close>.\<close>

definition get_plot_class :: "'v crossfilter \<Rightarrow> plot_type" where
  "get_plot_class cf = cf_plot_type cf"

definition make_xy_ranges ::
  "'v toolkit \<Rightarrow> ('v::linorder) crossfilter \<Rightarrow> error + 'v range \<times> 'v range" where
  "make_xy_ranges tk cf =
     (case get_plot_class cf of
        Bar \<Rightarrow> CrossBarPlugin_make_xy_ranges tk cf
      | _ \<Rightarrow> CrossFilterPlugin_make_xy_ranges cf)"

subsection \<open>Single plots and grids\<close>

text \<open>
  \<^verbatim>\<open>make_single_plot(df, title, facet)\<close>. When a frame is given it is facet-filtered and
  the plot is a faceted one; a non-empty \<^verbatim>\<open>facet\<close> is then applied (again). The frame
  that reaches the plugin is \<open>single_plot_data\<close>.
\<close>

definition single_plot_data ::
  "('v::linorder) crossfilter \<Rightarrow> 'v dataframe option \<Rightarrow> 'v facet list option
     \<Rightarrow> error + 'v dataframe \<times> bool" where
  "single_plot_data cf dfo fct =
     (case (case dfo of
              None \<Rightarrow> Inr (filtered_df cf, False)
            | Some d \<Rightarrow>
                (case fct of
                   None \<Rightarrow> Inl TypeError
                 | Some fs \<Rightarrow>
                     (case facet_data fs d of Inl e \<Rightarrow> Inl e | Inr d1 \<Rightarrow> Inr (d1, True)))) of
        Inl e \<Rightarrow> Inl e
      | Inr (d1, faceting) \<Rightarrow>
          (case (case fct of
                   None \<Rightarrow> Inr d1
                 | Some fs \<Rightarrow> if fs = [] then Inr d1 else facet_data fs d1) of
             Inl e \<Rightarrow> Inl e
           | Inr d2 \<Rightarrow> Inr (d2, faceting)))"

definition make_single_plot ::
  "'v toolkit \<Rightarrow> ('v::linorder) crossfilter \<Rightarrow> 'v dataframe option \<Rightarrow> string option
     \<Rightarrow> 'v facet list option \<Rightarrow> error + 'v figure" where
  "make_single_plot tk cf dfo ttl fct =
     (case single_plot_data cf dfo fct of
        Inl e \<Rightarrow> Inl e
      | Inr (d2, faceting) \<Rightarrow> get_plot tk (new_plugin (get_plot_class cf) cf d2 ttl faceting))"

text \<open>
  Modelled from the spec: \<^verbatim>\<open>hide_axes\<close> of \<^verbatim>\<open>crossfilter/plotting.py\<close>, which is not among
  the sources. It hides the axes named in \<open>axes\<close>, by default both.
\<close>

definition hide_axes :: "string \<Rightarrow> 'v figure \<Rightarrow> 'v figure" where
  "hide_axes axes plot =
     plot\<lparr>xaxis_hidden := xaxis_hidden plot \<or> CHR ''x'' \<in> set axes,
          yaxis_hidden := yaxis_hidden plot \<or> CHR ''y'' \<in> set axes\<rparr>"

text \<open>
  \<^verbatim>\<open>j >= next_len\<close>, where \<^verbatim>\<open>next_len\<close> is \<^verbatim>\<open>None\<close> unless the next row is the last:
  Python 2 orders \<^verbatim>\<open>None\<close> below every number, Python 3 raises \<^verbatim>\<open>TypeError\<close>.
\<close>

definition ge_next_len :: "python \<Rightarrow> nat \<Rightarrow> nat option \<Rightarrow> error + bool" where
  "ge_next_len py j next_len =
     (case next_len of
        Some n \<Rightarrow> Inr (j \<ge> n)
      | None \<Rightarrow> (case py of Python2 \<Rightarrow> Inr True | Python3 \<Rightarrow> Inl TypeError))"

text \<open>The body of the inner loop of \<^verbatim>\<open>hide_internal_axes\<close>, for the plot in column \<open>j\<close>.\<close>

definition hide_cell ::
  "python \<Rightarrow> bool \<Rightarrow> nat option \<Rightarrow> nat \<Rightarrow> 'v figure \<Rightarrow> error + 'v figure" where
  "hide_cell py is_bottom next_len j plot =
     (if j \<noteq> 0 then
        (case (if is_bottom then Inr True else ge_next_len py j next_len) of
           Inl e \<Rightarrow> Inl e
         | Inr b \<Rightarrow> if b then Inr (hide_axes ''y'' plot) else Inr (hide_axes ''xy'' plot))
      else if j = 0 \<and> \<not> is_bottom then Inr (hide_axes ''x'' plot)
      else Inr plot)"

fun hide_row ::
  "python \<Rightarrow> bool \<Rightarrow> nat option \<Rightarrow> nat \<Rightarrow> 'v figure list \<Rightarrow> error + 'v figure list" where
  "hide_row py is_bottom next_len j [] = Inr []"
| "hide_row py is_bottom next_len j (plot # plots) =
     (case hide_cell py is_bottom next_len j plot of
        Inl e \<Rightarrow> Inl e
      | Inr plot1 \<Rightarrow>
          (case hide_row py is_bottom next_len (Suc j) plots of
             Inl e \<Rightarrow> Inl e
           | Inr plots1 \<Rightarrow> Inr (plot1 # plots1)))"

fun hide_rows ::
  "python \<Rightarrow> 'v figure list list \<Rightarrow> nat \<Rightarrow> 'v figure list list \<Rightarrow> error + 'v figure list list" where
  "hide_rows py grid_plots i [] = Inr []"
| "hide_rows py grid_plots i (row # rows) =
     (let is_bottom = (i + 1 = length grid_plots);
          next_bottom = (i + 2 = length grid_plots);
          next_len = (if next_bottom then Some (length (grid_plots ! (i + 1))) else None)
      in case hide_row py is_bottom next_len 0 row of
           Inl e \<Rightarrow> Inl e
         | Inr row1 \<Rightarrow>
             (case hide_rows py grid_plots (Suc i) rows of
                Inl e \<Rightarrow> Inl e
              | Inr rows1 \<Rightarrow> Inr (row1 # rows1)))"

text \<open>\<^verbatim>\<open>hide_internal_axes\<close>: the grid with the axes of its plots hidden in place.\<close>

definition hide_internal_axes ::
  "python \<Rightarrow> 'v figure list list \<Rightarrow> error + 'v figure list list" where
  "hide_internal_axes py grid_plots = hide_rows py grid_plots 0 grid_plots"

text \<open>A loop that collects results and stops at the first exception.\<close>

fun map_result :: "('a \<Rightarrow> error + 'b) \<Rightarrow> 'a list \<Rightarrow> error + 'b list" where
  "map_result f [] = Inr []"
| "map_result f (x # xs) =
     (case f x of
        Inl e \<Rightarrow> Inl e
      | Inr y \<Rightarrow> (case map_result f xs of Inl e \<Rightarrow> Inl e | Inr ys \<Rightarrow> Inr (y # ys)))"

text \<open>\<^verbatim>\<open>sep.join(strings)\<close>.\<close>

fun join :: "string \<Rightarrow> string list \<Rightarrow> string" where
  "join sep [] = []"
| "join sep [s] = s"
| "join sep (s # t # ss) = s @ sep @ join sep (t # ss)"

text \<open>\<^verbatim>\<open>facet_title\<close>, and \<^verbatim>\<open>str\<close> of a list of facets (the label of a tab).\<close>

definition facet_title :: "'v facet list \<Rightarrow> string" where
  "facet_title facets = join '','' (map facet_repr facets)"

definition str_facets :: "'v facet list \<Rightarrow> string" where
  "str_facets facets = ''['' @ join '', '' (map facet_repr facets) @ '']''"

text \<open>The facets of the tab, when a non-empty list is given (\<^verbatim>\<open>if facet:\<close>).\<close>

definition tab_facets :: "'v facet list option \<Rightarrow> 'v facet list" where
  "tab_facets facet = (case facet of None \<Rightarrow> [] | Some fs \<Rightarrow> fs)"

text \<open>\<^verbatim>\<open>int(np.ceil(np.sqrt(n)))\<close> and the rows \<^verbatim>\<open>plots[i:i + chunk_size]\<close>.\<close>

definition ceil_sqrt :: "nat \<Rightarrow> nat" where
  "ceil_sqrt n = (case find (\<lambda>k. n \<le> k * k) [0..<Suc n] of Some k \<Rightarrow> k | None \<Rightarrow> n)"

definition chunks :: "nat \<Rightarrow> 'a list \<Rightarrow> 'a list list" where
  "chunks chunk_size plots =
     map (\<lambda>i. take chunk_size (drop (i * chunk_size) plots))
       [0..<(length plots + chunk_size - 1) div chunk_size]"

text \<open>
  \<^verbatim>\<open>make_1d_facet_plot\<close>. The title is taken before the tab's facets are appended to the
  combination; \<^verbatim>\<open>range(0, 0, 0)\<close> raises \<^verbatim>\<open>ValueError\<close> when there is no plot.
\<close>

definition make_1d_facet_plot ::
  "'v toolkit \<Rightarrow> ('v::linorder) crossfilter \<Rightarrow> 'v facet list option \<Rightarrow> error + 'v page" where
  "make_1d_facet_plot tk cf facet =
     (case make_facets tk cf (if cf_facet_x cf \<noteq> [] then ''x'' else ''y'') of
        Inl e \<Rightarrow> Inl e
      | Inr all_facets \<Rightarrow>
          (case map_result
                  (\<lambda>facets.
                     let ttl = facet_title facets; facets1 = facets @ tab_facets facet
                     in case facet_data facets1 (filtered_df cf) of
                          Inl e \<Rightarrow> Inl e
                        | Inr d \<Rightarrow> make_single_plot tk cf (Some d) (Some ttl) (Some facets1))
                  all_facets of
             Inl e \<Rightarrow> Inl e
           | Inr plots \<Rightarrow>
               (let chunk_size = ceil_sqrt (length plots)
                in if chunk_size = 0 then Inl ValueError
                   else (case hide_internal_axes (tk_python tk) (chunks chunk_size plots) of
                           Inl e \<Rightarrow> Inl e
                         | Inr grid_plots \<Rightarrow> Inr (GridPlot grid_plots (200 * chunk_size))))))"

text \<open>
  \<^verbatim>\<open>make_2d_facet_plot\<close>: one row per combination of the y facets;
  \<^verbatim>\<open>hide_internal_axes\<close> runs on the grid after each row is appended.
\<close>

fun make_2d_rows ::
  "'v toolkit \<Rightarrow> ('v::linorder) crossfilter \<Rightarrow> 'v facet list option \<Rightarrow> 'v facet list list
     \<Rightarrow> 'v facet list list \<Rightarrow> 'v figure list list \<Rightarrow> error + 'v figure list list" where
  "make_2d_rows tk cf facet all_facets_x [] grid_plots = Inr grid_plots"
| "make_2d_rows tk cf facet all_facets_x (facets_y # rest) grid_plots =
     (case map_result
             (\<lambda>facets_x.
                let facets = facets_x @ facets_y; ttl = facet_title facets;
                    filter_facets = facets @ tab_facets facet
                in case facet_data filter_facets (filtered_df cf) of
                     Inl e \<Rightarrow> Inl e
                   | Inr d \<Rightarrow> make_single_plot tk cf (Some d) (Some ttl) (Some facets))
             all_facets_x of
        Inl e \<Rightarrow> Inl e
      | Inr row \<Rightarrow>
          (case hide_internal_axes (tk_python tk) (grid_plots @ [row]) of
             Inl e \<Rightarrow> Inl e
           | Inr grid1 \<Rightarrow> make_2d_rows tk cf facet all_facets_x rest grid1))"

definition make_2d_facet_plot ::
  "'v toolkit \<Rightarrow> ('v::linorder) crossfilter \<Rightarrow> 'v facet list option \<Rightarrow> error + 'v page" where
  "make_2d_facet_plot tk cf facet =
     (case make_facets tk cf ''x'' of
        Inl e \<Rightarrow> Inl e
      | Inr all_facets_x \<Rightarrow>
          (case make_facets tk cf ''y'' of
             Inl e \<Rightarrow> Inl e
           | Inr all_facets_y \<Rightarrow>
               (case make_2d_rows tk cf facet all_facets_x all_facets_y [] of
                  Inl e \<Rightarrow> Inl e
                | Inr grid_plots \<Rightarrow> Inr (GridPlot grid_plots (200 * length all_facets_x)))))"

text \<open>\<^verbatim>\<open>create_plot_page\<close> and \<^verbatim>\<open>make_plot\<close>.\<close>

definition create_plot_page ::
  "'v toolkit \<Rightarrow> ('v::linorder) crossfilter \<Rightarrow> 'v facet list option \<Rightarrow> error + 'v page" where
  "create_plot_page tk cf tab_facet =
     (if length (cf_facet_x cf) = 0 \<and> length (cf_facet_y cf) = 0
      then (case make_single_plot tk cf None None tab_facet of
              Inl e \<Rightarrow> Inl e
            | Inr plot \<Rightarrow> Inr (Plot plot))
      else if (length (cf_facet_x cf) \<noteq> 0) \<noteq> (length (cf_facet_y cf) \<noteq> 0)
      then make_1d_facet_plot tk cf tab_facet
      else make_2d_facet_plot tk cf tab_facet)"

definition make_plot :: "'v toolkit \<Rightarrow> ('v::linorder) crossfilter \<Rightarrow> error + 'v display" where
  "make_plot tk cf =
     (if cf_facet_tab cf \<noteq> [] then
        (case make_facets tk cf ''tab'' of
           Inl e \<Rightarrow> Inl e
         | Inr facets \<Rightarrow>
             (case map_result
                     (\<lambda>facet. case create_plot_page tk cf (Some facet) of
                                 Inl e \<Rightarrow> Inl e
                               | Inr content \<Rightarrow> Inr (str_facets facet, content))
                     facets of
                Inl e \<Rightarrow> Inl e
              | Inr tabs \<Rightarrow> Inr (Tabs tabs)))
      else (case create_plot_page tk cf None of
              Inl e \<Rightarrow> Inl e
            | Inr content \<Rightarrow> Inr (Page content)))"

subsection \<open>Rebuilding the display\<close>

text \<open>
  \<^verbatim>\<open>update_xy_ranges\<close> stores the ranges of the current plot class. \<^verbatim>\<open>set_plot\<close> then
  makes the plot and assigns it to \<^verbatim>\<open>self.plot\<close>. An exception leaves the state as it
  was when it was raised; the second component is the exception, if any. The final
  \<^verbatim>\<open>curdoc()._add_all()\<close> registers the new objects with the document and is not
  modelled.
\<close>

definition update_xy_ranges ::
  "'v toolkit \<Rightarrow> ('v::linorder) crossfilter \<Rightarrow> error + 'v crossfilter" where
  "update_xy_ranges tk cf =
     (case make_xy_ranges tk cf of
        Inl e \<Rightarrow> Inl e
      | Inr (xr, yr) \<Rightarrow> Inr (cf\<lparr>cf_x_range := Some xr, cf_y_range := Some yr\<rparr>))"

definition set_plot ::
  "'v toolkit \<Rightarrow> ('v::linorder) crossfilter \<Rightarrow> 'v crossfilter \<times> error option" where
  "set_plot tk cf =
     (case update_xy_ranges tk cf of
        Inl e \<Rightarrow> (cf, Some e)
      | Inr cf1 \<Rightarrow>
          (case make_plot tk cf1 of
             Inl e \<Rightarrow> (cf1, Some e)
           | Inr plot \<Rightarrow> (cf1\<lparr>cf_plot := Some plot\<rparr>, None)))"

text \<open>
  \<^verbatim>\<open>plot_attribute_change\<close>: the selectors are named \<^verbatim>\<open>plot_type\<close>, \<^verbatim>\<open>x\<close>, \<^verbatim>\<open>y\<close> and
  \<^verbatim>\<open>agg\<close>; \<^verbatim>\<open>setattr(self, obj.name, new)\<close> writes the attribute of that name.
\<close>

datatype attribute_change =
    Set_plot_type plot_type
  | Set_x string
  | Set_y string
  | Set_agg string

definition setattr :: "'v crossfilter \<Rightarrow> attribute_change \<Rightarrow> 'v crossfilter" where
  "setattr cf chg =
     (case chg of
        Set_plot_type t \<Rightarrow> cf\<lparr>cf_plot_type := t\<rparr>
      | Set_x c \<Rightarrow> cf\<lparr>cf_x := c\<rparr>
      | Set_y c \<Rightarrow> cf\<lparr>cf_y := c\<rparr>
      | Set_agg a \<Rightarrow> cf\<lparr>cf_agg := a\<rparr>)"

definition plot_attribute_change ::
  "'v toolkit \<Rightarrow> ('v::linorder) crossfilter \<Rightarrow> attribute_change \<Rightarrow> 'v crossfilter \<times> error option" where
  "plot_attribute_change tk cf chg = set_plot tk (setattr cf chg)"

definition facet_change ::
  "'v toolkit \<Rightarrow> ('v::linorder) crossfilter \<Rightarrow> 'v crossfilter \<times> error option" where
  "facet_change tk cf = set_plot tk cf"

subsection \<open>The filter pipeline\<close>

text \<open>
  One round of the loop of \<^verbatim>\<open>handle_filter_selection\<close>, for one column descriptor.
  \<^verbatim>\<open>df[colname == selected]\<close> (a string selection) indexes the frame by a boolean and
  raises \<^verbatim>\<open>KeyError\<close>; a widget without a \<^verbatim>\<open>value\<close> raises \<^verbatim>\<open>AttributeError\<close>.
\<close>

definition filter_column ::
  "('v::linorder) crossfilter \<Rightarrow> descriptor \<Rightarrow> 'v dataframe \<Rightarrow> error + 'v dataframe" where
  "filter_column cf descr d =
     (let colname = name descr in
      if ctype descr = DiscreteColumn \<and> colname \<in> dom (cf_filter_widgets cf) then
        (case cf_filter_widgets cf colname of
           Some (InputWidget (SelString s)) \<Rightarrow> if s = [] then Inr d else Inl KeyError
         | Some (InputWidget (SelList vs)) \<Rightarrow>
             if vs = [] then Inr d else mask_filter d colname (\<lambda>x. x \<in> set vs)
         | _ \<Rightarrow> Inl AttributeError)
      else if ctype descr \<in> {TimeColumn, ContinuousColumn}
              \<and> colname \<in> dom (cf_filter_widgets cf) then
        (case cf_filter_sources cf colname of
           None \<Rightarrow> Inl KeyError
         | Some obj \<Rightarrow>
             if selected obj = [] then Inr d
             else (let min_idx = Min (set (selected obj)); max_idx = Max (set (selected obj))
                   in if min_idx < length (centers obj) \<and> max_idx < length (centers obj)
                      then mask_filter d colname
                             (\<lambda>x. x \<ge> centers obj ! min_idx \<and> x \<le> centers obj ! max_idx)
                      else Inl IndexError))
      else Inr d)"

fun filter_columns ::
  "('v::linorder) crossfilter \<Rightarrow> descriptor list \<Rightarrow> 'v dataframe \<Rightarrow> error + 'v dataframe" where
  "filter_columns cf [] d = Inr d"
| "filter_columns cf (descr # descrs) d =
     (case filter_column cf descr d of
        Inl e \<Rightarrow> Inl e
      | Inr d1 \<Rightarrow> filter_columns cf descrs d1)"

text \<open>
  \<^verbatim>\<open>handle_filter_selection\<close>: filter the full data by every widget, store each column
  of the result in \<^verbatim>\<open>filtered_data\<close>, then rebuild the plot. The columns are stored
  one by one; the model stores them together and leaves \<^verbatim>\<open>filtered_data\<close> alone when a
  column of \<^verbatim>\<open>data\<close> is missing from the frame (\<^verbatim>\<open>KeyError\<close>).
\<close>

definition handle_filter_selection ::
  "'v toolkit \<Rightarrow> ('v::linorder) crossfilter \<Rightarrow> 'v crossfilter \<times> error option" where
  "handle_filter_selection tk cf =
     (case filter_columns cf (cf_columns cf) (df cf) of
        Inl e \<Rightarrow> (cf, Some e)
      | Inr d \<Rightarrow>
          if set (df_columns (cf_data cf)) \<subseteq> set (df_columns d)
          then set_plot tk
                 (cf\<lparr>cf_filtered_data :=
                       \<lparr>df_columns = df_columns (cf_data cf), df_rows = df_rows d\<rparr>\<rparr>)
          else (cf, Some KeyError))"

text \<open>
  \<^verbatim>\<open>clear_selections\<close>. The removed columns \<^verbatim>\<open>set(old) - set(new)\<close> are visited in the
  order of \<open>old\<close>; \<^verbatim>\<open>del\<close> of a missing key raises \<^verbatim>\<open>KeyError\<close>.
\<close>

definition delete_widget ::
  "'v crossfilter \<Rightarrow> string \<Rightarrow> error + 'v crossfilter" where
  "delete_widget cf col =
     (case column_descriptor_dict (cf_columns cf) col of
        None \<Rightarrow> Inl KeyError
      | Some metadata \<Rightarrow>
          (case (if ctype metadata \<noteq> DiscreteColumn
                 then (if col \<in> dom (cf_filter_sources cf)
                       then Inr (cf\<lparr>cf_filter_sources := (cf_filter_sources cf)(col := None)\<rparr>)
                       else Inl KeyError)
                 else Inr cf) of
             Inl e \<Rightarrow> Inl e
           | Inr cf1 \<Rightarrow>
               if col \<in> dom (cf_filter_widgets cf1)
               then Inr (cf1\<lparr>cf_filter_widgets := (cf_filter_widgets cf1)(col := None)\<rparr>)
               else Inl KeyError))"

fun delete_widgets :: "'v crossfilter \<Rightarrow> string list \<Rightarrow> 'v crossfilter \<times> error option" where
  "delete_widgets cf [] = (cf, None)"
| "delete_widgets cf (col # cols) =
     (case delete_widget cf col of
        Inl e \<Rightarrow> (cf, Some e)
      | Inr cf1 \<Rightarrow> delete_widgets cf1 cols)"

definition clear_selections ::
  "'v toolkit \<Rightarrow> ('v::linorder) crossfilter \<Rightarrow> string list \<Rightarrow> string list
     \<Rightarrow> 'v crossfilter \<times> error option" where
  "clear_selections tk cf old new =
     (let diff = remdups (filter (\<lambda>c. c \<notin> set new) old)
      in case delete_widgets cf diff of
           (cf1, Some e) \<Rightarrow> (cf1, Some e)
         | (cf1, None) \<Rightarrow> if diff \<noteq> [] then handle_filter_selection tk cf1 else (cf1, None))"

subsection \<open>Empty selections and removed columns\<close>

text \<open>
  The widget of the column has an empty selection: the tests \<^verbatim>\<open>not selected\<close> on the value
  of the widget of a Discrete column and \<^verbatim>\<open>not obj.selected\<close> on the filter source of
  another column that has a widget.
\<close>

definition selection_empty :: "'v crossfilter \<Rightarrow> descriptor \<Rightarrow> bool" where
  "selection_empty cf descr =
     (if ctype descr = DiscreteColumn
      then (case cf_filter_widgets cf (name descr) of
              Some (InputWidget (SelString s)) \<Rightarrow> s = []
            | Some (InputWidget (SelList vs)) \<Rightarrow> vs = []
            | _ \<Rightarrow> False)
      else name descr \<in> dom (cf_filter_widgets cf) \<and>
           (case cf_filter_sources cf (name descr) of
              Some obj \<Rightarrow> selected obj = []
            | None \<Rightarrow> False))"

text \<open>The columns of \<open>A\<close> that are described and not Discrete: those with a filter source.\<close>

definition continuous_of :: "descriptor list \<Rightarrow> string set \<Rightarrow> string set" where
  "continuous_of cols A =
     {col \<in> A. \<exists>m. column_descriptor_dict cols col = Some m \<and> ctype m \<noteq> DiscreteColumn}"

subsection \<open>The rows a facet accepts\<close>

text \<open>
  The condition of a facet in the words of the specification: equality on the field
  for a discrete facet; for a continuous one, strictly above the lower bound when there
  is one and at most the upper bound when there is one.
\<close>

fun facet_accepts :: "('v::linorder) facet \<Rightarrow> 'v row \<Rightarrow> bool" where
  "facet_accepts (DiscreteFacet fld lbl v) r = (r fld = v)"
| "facet_accepts (ContinuousFacet fld lbl v (lo, hi)) r =
     ((case lo of None \<Rightarrow> True | Some b \<Rightarrow> r fld > b) \<and>
      (case hi of None \<Rightarrow> True | Some b \<Rightarrow> r fld \<le> b))"

subsection \<open>Quantile bins as pandas computes them\<close>

text \<open>
  \<^verbatim>\<open>pd.qcut(x, q, retbins=True)\<close> on rational cells, to have a value for the parameter
  \<open>tk_qcut\<close> in the examples; pandas is not part of this repository. The bin edges are
  the quantiles at \<^verbatim>\<open>np.linspace(0, 1, q + 1)\<close> of the sorted values, interpolated linearly
  between neighbours; pandas raises \<^verbatim>\<open>ValueError\<close> (bin edges must be unique) when two
  edges coincide. The labels of the categories are left to \<open>format_levels\<close>.
\<close>

definition linspace01 :: "nat \<Rightarrow> rat list" where
  "linspace01 q = map (\<lambda>i. of_nat i / of_nat q) [0..<q + 1]"

definition quantile :: "rat list \<Rightarrow> rat \<Rightarrow> rat" where
  "quantile vals q =
     (let idx = q * of_nat (length vals - 1); lo = nat \<lfloor>idx\<rfloor>; fraction = idx - of_nat lo
      in if fraction = 0 then vals ! lo
         else vals ! lo + (vals ! (lo + 1) - vals ! lo) * fraction)"

definition pandas_qcut :: "(rat list \<Rightarrow> string list) \<Rightarrow> rat qcut" where
  "pandas_qcut format_levels x q =
     (let bins = map (quantile (sort x)) (linspace01 q)
      in if x = [] \<or> \<not> distinct bins then Inl ValueError
         else Inr (format_levels bins, bins))"

subsection \<open>Example data\<close>

text \<open>
  A data set with a discrete column \<^verbatim>\<open>category\<close> (0 shown as A, 1 as B) and a continuous
  column \<^verbatim>\<open>value\<close>; a second one whose values are skewed; an application over a data
  set with the given x facets; and a toolkit.
\<close>

definition example_row :: "rat \<Rightarrow> rat \<Rightarrow> rat row" where
  "example_row cat val = (\<lambda>c. if c = ''category'' then cat else val)"

definition example_df :: "rat dataframe" where
  "example_df =
     \<lparr>df_columns = [''category'', ''value''],
      df_rows = [example_row 0 3, example_row 1 1, example_row 0 2, example_row 1 5,
                 example_row 0 4, example_row 1 6, example_row 0 9, example_row 1 8,
                 example_row 0 7]\<rparr>"


definition example_cf :: "rat dataframe \<Rightarrow> string list \<Rightarrow> rat crossfilter" where
  "example_cf d facets =
     \<lparr>cf_columns = [\<lparr>name = ''category'', ctype = DiscreteColumn\<rparr>,
                    \<lparr>name = ''value'', ctype = ContinuousColumn\<rparr>],
      cf_df = None, cf_data = d, cf_filtered_data = d,
      cf_filter_sources = Map.empty, cf_filtering_columns = [],
      cf_filter_widgets = Map.empty,
      cf_facet_x = facets, cf_facet_y = [], cf_facet_tab = [],
      cf_plot = None, cf_x_range = None, cf_y_range = None,
      cf_plot_type = Scatter, cf_x = ''category'', cf_y = ''value'', cf_agg = ''sum''\<rparr>"

definition example_tk :: "rat toolkit" where
  "example_tk =
     \<lparr>tk_python = Python3, tk_str = (\<lambda>v. if v = 0 then ''A'' else ''B''),
      tk_qcut = pandas_qcut (\<lambda>bins. [''Q1'', ''Q2'', ''Q3'', ''Q4'']),
      make_continuous_bar_source = (\<lambda>d x y a. Inr d),
      make_categorical_bar_source = (\<lambda>d x y a. Inr d),
      make_histogram_source = (\<lambda>vals. \<lparr>centers = vals, selected = []\<rparr>),
      minus_bar_width = (\<lambda>v. v - 7 / 10), halve = (\<lambda>v. v / 2), zero = 0\<rparr>"

text \<open>A blank figure with both axes showing, for the examples.\<close>

abbreviation blank :: "rat figure" where
  "blank \<equiv> \<lparr>fig_title = [], fig_glyph = None, xaxis_hidden = False, yaxis_hidden = False\<rparr>"

section \<open>Properties\<close>

subsection \<open>Hiding the internal axes of a grid\<close>

lemma hide_row_nth:
  "hide_row py b nl j0 row = Inr row' \<Longrightarrow>
   length row' = length row \<and> (\<forall>k < length row. hide_cell py b nl (j0 + k) (row ! k) = Inr (row' ! k))"
proof (induction row arbitrary: j0 row')
  case Nil
  then show ?case by simp
next
  case (Cons p ps)
  from Cons.prems obtain p1 ps1 where c: "hide_cell py b nl j0 p = Inr p1"
    and r: "hide_row py b nl (Suc j0) ps = Inr ps1" and e: "row' = p1 # ps1"
    by (auto split: sum.splits)
  from Cons.IH[OF r] have ih: "length ps1 = length ps"
    "\<forall>k < length ps. hide_cell py b nl (Suc j0 + k) (ps ! k) = Inr (ps1 ! k)" by auto
  show ?case using c e ih by (auto simp: nth_Cons split: nat.splits)
qed

lemma hide_row_total:
  "(\<forall>k < length row. \<exists>p. hide_cell py b nl (j0 + k) (row ! k) = Inr p) \<Longrightarrow>
   \<exists>row'. hide_row py b nl j0 row = Inr row'"
proof (induction row arbitrary: j0)
  case Nil
  then show ?case by simp
next
  case (Cons p ps)
  from Cons.prems have "\<exists>q. hide_cell py b nl (j0 + 0) ((p # ps) ! 0) = Inr q" by blast
  then obtain q where q: "hide_cell py b nl j0 p = Inr q" by auto
  have "\<forall>k < length ps. \<exists>q. hide_cell py b nl (Suc j0 + k) (ps ! k) = Inr q"
  proof (intro allI impI)
    fix k assume "k < length ps"
    then have "Suc k < length (p # ps)" by simp
    from Cons.prems[rule_format, OF this] show "\<exists>q. hide_cell py b nl (Suc j0 + k) (ps ! k) = Inr q" by simp
  qed
  from Cons.IH[OF this] obtain r where "hide_row py b nl (Suc j0) ps = Inr r" by blast
  with q show ?case by simp
qed


lemma hide_rows_nth:
  "hide_rows py g i0 rows = Inr rows' \<Longrightarrow>
   length rows' = length rows \<and>
   (\<forall>k < length rows. hide_row py (i0 + k + 1 = length g)
        (if i0 + k + 2 = length g then Some (length (g ! (i0 + k + 1))) else None) 0 (rows ! k) = Inr (rows' ! k))"
proof (induction rows arbitrary: i0 rows')
  case Nil
  then show ?case by simp
next
  case (Cons r rs)
  from Cons.prems obtain r1 rs1 where c: "hide_row py (i0 + 1 = length g)
        (if i0 + 2 = length g then Some (length (g ! (i0 + 1))) else None) 0 r = Inr r1"
    and r: "hide_rows py g (Suc i0) rs = Inr rs1" and e: "rows' = r1 # rs1"
    by (auto simp: Let_def split: sum.splits)
  from Cons.IH[OF r] have ih: "length rs1 = length rs"
    "\<forall>k < length rs. hide_row py (Suc i0 + k + 1 = length g)
        (if Suc i0 + k + 2 = length g then Some (length (g ! (Suc i0 + k + 1))) else None) 0 (rs ! k) = Inr (rs1 ! k)" by auto
  show ?case using c e ih by (auto simp: nth_Cons split: nat.splits)
qed

lemma hide_rows_total:
  "(\<forall>k < length rows. \<exists>r. hide_row py (i0 + k + 1 = length g)
        (if i0 + k + 2 = length g then Some (length (g ! (i0 + k + 1))) else None) 0 (rows ! k) = Inr r) \<Longrightarrow>
   \<exists>rows'. hide_rows py g i0 rows = Inr rows'"
proof (induction rows arbitrary: i0)
  case Nil
  then show ?case by simp
next
  case (Cons r rs)
  from Cons.prems[rule_format, of 0] have "\<exists>q. hide_row py (i0 + 1 = length g)
        (if i0 + 2 = length g then Some (length (g ! (i0 + 1))) else None) 0 r = Inr q"
    by (simp cong: if_cong)
  then obtain q where q: "hide_row py (i0 + 1 = length g)
        (if i0 + 2 = length g then Some (length (g ! (i0 + 1))) else None) 0 r = Inr q" by blast
  have "\<forall>k < length rs. \<exists>r. hide_row py (Suc i0 + k + 1 = length g)
        (if Suc i0 + k + 2 = length g then Some (length (g ! (Suc i0 + k + 1))) else None) 0 (rs ! k) = Inr r"
  proof (intro allI impI)
    fix k assume "k < length rs"
    then have "Suc k < length (r # rs)" by simp
    from Cons.prems[rule_format, OF this] show "\<exists>r. hide_row py (Suc i0 + k + 1 = length g)
        (if Suc i0 + k + 2 = length g then Some (length (g ! (Suc i0 + k + 1))) else None) 0 (rs ! k) = Inr r" by (simp cong: if_cong)
  qed
  from Cons.IH[OF this] obtain r' where "hide_rows py g (Suc i0) rs = Inr r'" by blast
  with q show ?case by (simp add: Let_def)
qed


lemma hide_internal_axes_cell:
  assumes "hide_internal_axes py g = Inr g'" "i < length g" "j < length (g ! i)"
  shows "length g' = length g \<and> length (g' ! i) = length (g ! i) \<and>
         hide_cell py (i + 1 = length g)
           (if i + 2 = length g then Some (length (g ! (i + 1))) else None) j (g ! i ! j) = Inr (g' ! i ! j)"
proof -
  from assms(1) have r: "hide_rows py g 0 g = Inr g'" by (simp add: hide_internal_axes_def)
  from hide_rows_nth[OF r] assms(2) have l: "length g' = length g"
    and row: "hide_row py (i + 1 = length g)
        (if i + 2 = length g then Some (length (g ! (i + 1))) else None) 0 (g ! i) = Inr (g' ! i)"
    by (auto cong: if_cong)
  from hide_row_nth[OF row] assms(3) show ?thesis using l by auto
qed

lemma hide_cell_py2: "\<exists>p. hide_cell Python2 b nl j plot = Inr p"
  by (cases nl) (auto simp: hide_cell_def ge_next_len_def)

lemma hide_internal_axes_py2_total: "\<exists>g'. hide_internal_axes Python2 g = Inr g'"
  unfolding hide_internal_axes_def
  by (intro hide_rows_total hide_row_total allI impI hide_cell_py2)

lemma hide_internal_axes_total:
  assumes "\<forall>i. i + 2 < length g \<longrightarrow> length (g ! i) \<le> 1"
  shows "\<exists>g'. hide_internal_axes py g = Inr g'"
  unfolding hide_internal_axes_def
proof (intro hide_rows_total hide_row_total allI impI)
  fix k ka assume k: "k < length g" and ka: "ka < length (g ! k)"
  show "\<exists>p. hide_cell py (0 + k + 1 = length g)
              (if 0 + k + 2 = length g then Some (length (g ! (0 + k + 1))) else None)
              (0 + ka) (g ! k ! ka) = Inr p"
  proof (cases "k + 2 < length g")
    case True
    with assms ka have "ka = 0" by force
    then show ?thesis by (simp add: hide_cell_def)
  next
    case False
    then show ?thesis using k by (auto simp: hide_cell_def ge_next_len_def)
  qed
qed

text \<open>
  C1 (amended). \<^verbatim>\<open>hide_internal_axes\<close> returns under Python 2, and under either Python
  when no row above the last two has more than one plot. Whenever it returns, for the
  plot in row \<open>i\<close> and column \<open>j\<close> (0-based): in the last two rows a plot with \<open>j \<noteq> 0\<close> has
  its y-axis hidden, and its x-axis too exactly when its row is not the bottom row and
  the next row has a plot under column \<open>j\<close>; a plot with \<open>j = 0\<close> has only its x-axis
  hidden in a row that is not the bottom row, and nothing hidden in the bottom row.
\<close>

theorem hide_internal_axes_rule:
  "(\<exists>g'. hide_internal_axes Python2 g = Inr g') \<and>
   ((\<forall>i. i + 2 < length g \<longrightarrow> length (g ! i) \<le> 1) \<longrightarrow> (\<exists>g'. hide_internal_axes py g = Inr g')) \<and>
   (\<forall>g' i j. hide_internal_axes py g = Inr g' \<longrightarrow> i < length g \<longrightarrow> j < length (g ! i) \<longrightarrow>
      (j \<noteq> 0 \<longrightarrow> length g \<le> i + 2 \<longrightarrow>
         g' ! i ! j =
           (if i + 1 \<noteq> length g \<and> j < length (g ! (i + 1)) then hide_axes ''xy'' (g ! i ! j)
            else hide_axes ''y'' (g ! i ! j))) \<and>
      (j = 0 \<longrightarrow> i + 1 \<noteq> length g \<longrightarrow> g' ! i ! j = hide_axes ''x'' (g ! i ! j)) \<and>
      (j = 0 \<longrightarrow> i + 1 = length g \<longrightarrow> g' ! i ! j = g ! i ! j))"
proof (intro conjI allI impI)
  show "\<exists>g'. hide_internal_axes Python2 g = Inr g'" by (rule hide_internal_axes_py2_total)
next
  assume "\<forall>i. i + 2 < length g \<longrightarrow> length (g ! i) \<le> 1"
  then show "\<exists>g'. hide_internal_axes py g = Inr g'" by (rule hide_internal_axes_total)
next
  fix g' i j
  assume h: "hide_internal_axes py g = Inr g'" "i < length g" "j < length (g ! i)"
    and j: "j \<noteq> 0" and i: "length g \<le> i + 2"
  from hide_internal_axes_cell[OF h]
  have c: "hide_cell py (i + 1 = length g)
           (if i + 2 = length g then Some (length (g ! (i + 1))) else None) j (g ! i ! j) = Inr (g' ! i ! j)"
    by simp
  from i h(2) have "i + 1 = length g \<or> i + 2 = length g" by arith
  then show "g' ! i ! j =
           (if i + 1 \<noteq> length g \<and> j < length (g ! (i + 1)) then hide_axes ''xy'' (g ! i ! j)
            else hide_axes ''y'' (g ! i ! j))"
    using c j by (auto simp: hide_cell_def ge_next_len_def split: if_splits)
next
  fix g' i j
  assume h: "hide_internal_axes py g = Inr g'" "i < length g" "j < length (g ! i)"
    and j: "j = 0" and i: "i + 1 \<noteq> length g"
  from hide_internal_axes_cell[OF h] j i show "g' ! i ! j = hide_axes ''x'' (g ! i ! j)"
    by (simp add: hide_cell_def)
next
  fix g' i j
  assume h: "hide_internal_axes py g = Inr g'" "i < length g" "j < length (g ! i)"
    and j: "j = 0" and i: "i + 1 = length g"
  from hide_internal_axes_cell[OF h] j i show "g' ! i ! j = g ! i ! j"
    by (simp add: hide_cell_def)
qed

theorem hide_internal_axes_rule_witness:
  "\<exists>g'. hide_internal_axes Python3 [[blank, blank, blank], [blank, blank]] = Inr g' \<and>
      g' ! 0 ! 0 = hide_axes ''x'' blank \<and> g' ! 0 ! 1 = hide_axes ''xy'' blank \<and>
      g' ! 0 ! 2 = hide_axes ''y'' blank \<and> g' ! 1 ! 0 = blank \<and> g' ! 1 ! 1 = hide_axes ''y'' blank"
proof -
  let ?g = "[[blank, blank, blank], [blank, blank]]"
  note r = hide_internal_axes_rule[of ?g Python3]
  from r have "\<exists>g'. hide_internal_axes Python3 ?g = Inr g'" by simp
  then obtain g' where g': "hide_internal_axes Python3 ?g = Inr g'" by blast
  from r g' have c: "\<And>i j. i < length ?g \<Longrightarrow> j < length (?g ! i) \<Longrightarrow>
      (j \<noteq> 0 \<longrightarrow> length ?g \<le> i + 2 \<longrightarrow>
         g' ! i ! j =
           (if i + 1 \<noteq> length ?g \<and> j < length (?g ! (i + 1)) then hide_axes ''xy'' (?g ! i ! j)
            else hide_axes ''y'' (?g ! i ! j))) \<and>
      (j = 0 \<longrightarrow> i + 1 \<noteq> length ?g \<longrightarrow> g' ! i ! j = hide_axes ''x'' (?g ! i ! j)) \<and>
      (j = 0 \<longrightarrow> i + 1 = length ?g \<longrightarrow> g' ! i ! j = ?g ! i ! j)" by blast
  from c[of 0 0] have a: "g' ! 0 ! 0 = hide_axes ''x'' blank" by simp
  from c[of 0 1] have b: "g' ! 0 ! 1 = hide_axes ''xy'' blank" by simp
  from c[of 0 2] have d: "g' ! 0 ! 2 = hide_axes ''y'' blank" by simp
  from c[of 1 0] have e: "g' ! 1 ! 0 = blank" by simp
  from c[of 1 1] have f: "g' ! 1 ! 1 = hide_axes ''y'' blank" by simp
  from g' a b d e f show ?thesis by blast
qed

text \<open>
  The claim as stated fails on its own example, the grid of rows of 2, 2 and 1 plots:
  under Python 2 the plots (0,1) and (1,1) keep their x-axis, under Python 3 the call
  raises \<^verbatim>\<open>TypeError\<close> at plot (0,1).
\<close>

theorem hide_internal_axes_counterexample:
  "hide_internal_axes Python2 [[blank, blank], [blank, blank], [blank]] =
     Inr [[hide_axes ''x'' blank, hide_axes ''y'' blank],
          [hide_axes ''x'' blank, hide_axes ''y'' blank], [blank]] \<and>
   hide_internal_axes Python3 [[blank, blank], [blank, blank], [blank]] = Inl TypeError \<and>
   hide_axes ''y'' blank \<noteq> hide_axes ''xy'' blank"
  by (simp add: hide_internal_axes_def hide_cell_def ge_next_len_def hide_axes_def)

subsection \<open>The Cartesian product of facets\<close>

lemma cross_length: "length (cross A B) = length A * length B"
  by (induction A) (simp_all add: cross_def)

lemma cross_set: "set (cross A B) = {a @ [b] | a b. a \<in> set A \<and> b \<in> set B}"
  by (auto simp: cross_def)

lemma cross_Cons: "cross (a # A) B = map (\<lambda>n. a @ [n]) B @ cross A B"
  by (simp add: cross_def)

lemma cross_distinct: "distinct A \<Longrightarrow> distinct B \<Longrightarrow> distinct (cross A B)"
proof (induction A)
  case Nil
  then show ?case by (simp add: cross_def)
next
  case (Cons a A)
  have inj: "inj_on (\<lambda>n. a @ [n]) (set B)" by (simp add: inj_on_def)
  have d1: "distinct (map (\<lambda>n. a @ [n]) B)" using Cons.prems(2) inj by (simp add: distinct_map)
  have d2: "distinct (cross A B)" using Cons by simp
  have disj: "set (map (\<lambda>n. a @ [n]) B) \<inter> set (cross A B) = {}"
    using Cons.prems(1) by (auto simp: cross_set)
  show ?case unfolding cross_Cons using d1 d2 disj by simp
qed

lemma make_facets_loop_eq:
  "make_facets_loop str qcut cols d flds acc =
     (case map_result (field_facets str qcut cols d) flds of
        Inl e \<Rightarrow> Inl e
      | Inr ffs \<Rightarrow> Inr (foldl cross acc ffs))"
  by (induction flds arbitrary: acc) (auto split: sum.splits)

text \<open>
  C6. \<^verbatim>\<open>make_facets\<close> folds \<^verbatim>\<open>cross\<close> over the facets of the columns of the dimension,
  starting from the list that holds the empty combination, and raises what the first
  failing column raises. \<^verbatim>\<open>cross(A, B)\<close> has \<open>|A| * |B|\<close> elements, they are exactly the
  lists \<open>a @ [b]\<close> for \<open>a\<close> in \<open>A\<close> and \<open>b\<close> in \<open>B\<close>, and none is repeated when neither \<open>A\<close>
  nor \<open>B\<close> repeats an element.
\<close>

theorem cross_cartesian_fold:
  "make_facets tk cf dimension =
     (case map_result (field_facets (tk_str tk) (tk_qcut tk) (cf_columns cf) (df cf))
             (if dimension = ''x'' then cf_facet_x cf
              else if dimension = ''y'' then cf_facet_y cf else cf_facet_tab cf) of
        Inl e \<Rightarrow> Inl e
      | Inr ffs \<Rightarrow> Inr (foldl cross [[]] ffs)) \<and>
   length (cross A B) = length A * length B \<and>
   set (cross A B) = {a @ [b] | a b. a \<in> set A \<and> b \<in> set B} \<and>
   (distinct A \<and> distinct B \<longrightarrow> distinct (cross A B))"
  by (simp add: make_facets_def make_facets_loop_eq cross_length cross_set cross_distinct)

theorem cross_cartesian_fold_witness:
  "cross [[1::nat], [2]] [3, 4] = [[1, 3], [1, 4], [2, 3], [2, 4]] \<and>
   length (cross [[1::nat], [2]] [3, 4]) = 4 \<and> distinct (cross [[1::nat], [2]] [3, 4])"
proof -
  have d: "distinct [[1::nat], [2]] \<and> distinct [3::nat, 4]" by simp
  from cross_cartesian_fold[of _ _ _ "[[1::nat], [2]]" "[3, 4]"] d
  have "length (cross [[1::nat], [2]] [3, 4]) = length [[1::nat], [2]] * length [3::nat, 4]"
    and "distinct (cross [[1::nat], [2]] [3, 4])" by blast+
  moreover have "cross [[1::nat], [2]] [3, 4] = [[1, 3], [1, 4], [2, 3], [2, 4]]"
    by (simp add: cross_def)
  ultimately show ?thesis by simp
qed

subsection \<open>Plot titles\<close>

text \<open>
  C5 (amended). A plugin made without a title takes the derived one: for the base class
  (scatter, line) it is the x column, then \<^verbatim>\<open>" by "\<close>, then the y column; for the bar
  plugin it is the aggregation, \<^verbatim>\<open>"("\<close>, the y column, \<^verbatim>\<open>") by "\<close>, the x column.
\<close>

theorem plugin_title:
  "p_title (new_plugin Scatter cf src None fct) = cf_x cf @ '' by '' @ cf_y cf \<and>
   p_title (new_plugin Line cf src None fct) = cf_x cf @ '' by '' @ cf_y cf \<and>
   p_title (new_plugin Bar cf src None fct) = cf_agg cf @ ''('' @ cf_y cf @ '') by '' @ cf_x cf \<and>
   title (new_plugin Scatter cf src ttl fct) = cf_x cf @ '' by '' @ cf_y cf \<and>
   title (new_plugin Line cf src ttl fct) = cf_x cf @ '' by '' @ cf_y cf \<and>
   title (new_plugin Bar cf src ttl fct) = cf_agg cf @ ''('' @ cf_y cf @ '') by '' @ cf_x cf"
  by (simp add: new_plugin_def title_def CrossFilterPlugin_title_def CrossBarPlugin_title_def Let_def
      split: option.splits)

text \<open>The base title of x = a, y = b is \<^verbatim>\<open>"a by b"\<close>, not \<^verbatim>\<open>"b by a"\<close>.\<close>

theorem plugin_title_counterexample:
  "title \<lparr>p_cls = Scatter, p_x = ''a'', p_y = ''b'', p_agg = ''sum'',
          p_source = \<lparr>df_columns = [''a'', ''b''], df_rows = [] :: nat row list\<rparr>, p_facet = False,
          p_col_meta = Map.empty, p_valid_plot = True, p_title = []\<rparr> = ''a by b'' \<and>
   ''a by b'' \<noteq> ''b by a''"
  by (simp add: title_def CrossFilterPlugin_title_def)

subsection \<open>The examples\<close>

lemma example_cdd:
  "column_descriptor_dict (cf_columns (example_cf d fs)) ''category'' =
     Some \<lparr>name = ''category'', ctype = DiscreteColumn\<rparr>"
  "column_descriptor_dict (cf_columns (example_cf d fs)) ''value'' =
     Some \<lparr>name = ''value'', ctype = ContinuousColumn\<rparr>"
  by (simp_all add: column_descriptor_dict_def example_cf_def)

lemma example_xy: "cf_x (example_cf d fs) = ''category''" "cf_y (example_cf d fs) = ''value''"
  "cf_agg (example_cf d fs) = ''sum''"
  by (simp_all add: example_cf_def)







subsection \<open>Facet filters\<close>

lemma zip_map_filter: "map fst (filter snd (zip xs (map f xs))) = filter f xs"
  by (induction xs) auto

lemma mask_filter_eq:
  "mask_filter d c cond =
     (if c \<in> set (df_columns d) then Inr (d\<lparr>df_rows := filter (\<lambda>r. cond (r c)) (df_rows d)\<rparr>)
      else Inl KeyError)"
  by (simp add: mask_filter_def column_def select_rows_def zip_map_filter[of _ "\<lambda>r. cond (r c)", simplified comp_def, symmetric] comp_def)

lemma facet_accepts_fun:
  "facet_accepts (DiscreteFacet fld lbl v) = (\<lambda>r. r fld = v)"
  "facet_accepts (ContinuousFacet fld lbl cv (lo, hi)) =
     (\<lambda>r. (case lo of None \<Rightarrow> True | Some b \<Rightarrow> r fld > b) \<and>
          (case hi of None \<Rightarrow> True | Some b \<Rightarrow> r fld \<le> b))"
  by (rule ext, simp)+

lemma facet_filter_Inr:
  assumes "facet_filter f d = Inr d1"
  shows "df_columns d1 = df_columns d \<and> df_rows d1 = filter (facet_accepts f) (df_rows d)"
proof (cases f)
  case (DiscreteFacet fld lbl v)
  with assms show ?thesis by (auto simp: mask_filter_eq facet_accepts_fun split: if_splits)
next
  case (ContinuousFacet fld lbl v bs)
  obtain lo hi where bs: "bs = (lo, hi)" by (cases bs)
  with assms ContinuousFacet show ?thesis
    by (cases lo; cases hi) (auto simp: mask_filter_eq facet_accepts_fun split: if_splits)
qed

lemma facet_filter_fixed:
  assumes "facet_filter f d = Inr d1" "df_columns d2 = df_columns d"
    "\<forall>r \<in> set (df_rows d2). facet_accepts f r"
  shows "facet_filter f d2 = Inr d2"
proof -
  have id: "filter (facet_accepts f) (df_rows d2) = df_rows d2" using assms(3) by simp
  show ?thesis
  proof (cases f)
    case (DiscreteFacet fld lbl v)
    with assms(1,2) id show ?thesis by (auto simp: mask_filter_eq facet_accepts_fun split: if_splits)
  next
    case (ContinuousFacet fld lbl v bs)
    obtain lo hi where bs: "bs = (lo, hi)" by (cases bs)
    have l: "\<And>b. lo = Some b \<Longrightarrow> filter (\<lambda>r. b < r fld) (df_rows d2) = df_rows d2"
      using assms(3) ContinuousFacet bs by (auto simp: filter_id_conv)
    have h: "\<And>b. hi = Some b \<Longrightarrow> filter (\<lambda>r. r fld \<le> b) (df_rows d2) = df_rows d2"
      using assms(3) ContinuousFacet bs by (auto simp: filter_id_conv)
    from assms(1,2) ContinuousFacet bs l h show ?thesis
      by (cases lo; cases hi) (auto simp: mask_filter_eq split: if_splits)
  qed
qed

lemma facet_data_Inr:
  "facet_data fs d = Inr d1 \<Longrightarrow>
   df_columns d1 = df_columns d \<and> df_rows d1 = filter (\<lambda>r. \<forall>f \<in> set fs. facet_accepts f r) (df_rows d)"
proof (induction fs arbitrary: d)
  case Nil
  then show ?case by simp
next
  case (Cons f fs)
  from Cons.prems obtain d0 where f: "facet_filter f d = Inr d0" and r: "facet_data fs d0 = Inr d1"
    by (auto split: sum.splits)
  from facet_filter_Inr[OF f] Cons.IH[OF r] show ?case by (auto intro: filter_cong)
qed

lemma facet_data_fixed:
  "facet_data gs d = Inr d1 \<Longrightarrow> set fs \<subseteq> set gs \<Longrightarrow> df_columns d2 = df_columns d \<Longrightarrow>
   set (df_rows d2) \<subseteq> set (df_rows d1) \<Longrightarrow> facet_data fs d2 = Inr d2"
proof (induction fs)
  case Nil
  then show ?case by simp
next
  case (Cons f fs)
  have acc: "\<forall>r \<in> set (df_rows d2). \<forall>g \<in> set gs. facet_accepts g r"
    using facet_data_Inr[OF Cons.prems(1)] Cons.prems(4) by auto
  have "f \<in> set gs" using Cons.prems(2) by simp
  have "\<exists>da db. facet_filter f da = Inr db \<and> df_columns da = df_columns d"
    using Cons.prems(1) \<open>f \<in> set gs\<close>
  proof (induction gs arbitrary: d)
    case Nil
    then show ?case by simp
  next
    case (Cons g gs)
    from Cons.prems(1) obtain d0 where g: "facet_filter g d = Inr d0" and r: "facet_data gs d0 = Inr d1"
      by (auto split: sum.splits)
    show ?case
    proof (cases "f = g")
      case True
      with g show ?thesis by blast
    next
      case False
      with Cons.prems(2) have "f \<in> set gs" by simp
      from Cons.IH[OF r this] facet_filter_Inr[OF g] show ?thesis by auto
    qed
  qed
  then obtain da db where ff: "facet_filter f da = Inr db" and c: "df_columns da = df_columns d" by blast
  have "facet_filter f d2 = Inr d2"
    using facet_filter_fixed[OF ff, of d2] c Cons.prems(3) acc \<open>f \<in> set gs\<close> by auto
  moreover have "facet_data fs d2 = Inr d2" using Cons by auto
  ultimately show ?case by simp
qed

text \<open>
  C9. A facet's filter is idempotent: when \<^verbatim>\<open>f.filter(df)\<close> returns a frame, filtering
  that frame by \<open>f\<close> again returns it unchanged (and when the first call raises, so does
  the composition). The same holds for a list of facets applied by \<^verbatim>\<open>facet_data\<close>.
  So, given a frame that was already filtered by facets that include the ones passed
  as \<^verbatim>\<open>facet\<close>, the frame that \<^verbatim>\<open>make_single_plot\<close> hands to the plugin after its own
  one or two applications is that same frame.
\<close>

theorem facet_filter_idempotent:
  "(facet_filter f d = Inr d1 \<longrightarrow> facet_filter f d1 = Inr d1) \<and>
   (facet_data fs d = Inr d1 \<longrightarrow> facet_data fs d1 = Inr d1) \<and>
   (facet_data gs d = Inr d1 \<longrightarrow> set fs \<subseteq> set gs \<longrightarrow>
      single_plot_data cf (Some d1) (Some fs) = Inr (d1, True))"
proof (intro conjI impI)
  assume a: "facet_filter f d = Inr d1"
  from facet_filter_Inr[OF a] facet_filter_fixed[OF a, of d1] show "facet_filter f d1 = Inr d1" by simp
next
  assume a: "facet_data fs d = Inr d1"
  from facet_data_Inr[OF a] facet_data_fixed[OF a, of fs d1] show "facet_data fs d1 = Inr d1" by simp
next
  assume a: "facet_data gs d = Inr d1" and s: "set fs \<subseteq> set gs"
  from facet_data_Inr[OF a] facet_data_fixed[OF a s, of d1] have "facet_data fs d1 = Inr d1" by simp
  then show "single_plot_data cf (Some d1) (Some fs) = Inr (d1, True)"
    by (simp add: single_plot_data_def)
qed

theorem facet_filter_idempotent_witness:
  "facet_filter (DiscreteFacet ''category'' ''A'' 0)
      (example_df\<lparr>df_rows := filter (\<lambda>r. r ''category'' = 0) (df_rows example_df)\<rparr>) =
     Inr (example_df\<lparr>df_rows := filter (\<lambda>r. r ''category'' = 0) (df_rows example_df)\<rparr>) \<and>
   facet_data [DiscreteFacet ''category'' ''A'' 0]
      (example_df\<lparr>df_rows := filter (\<lambda>r. r ''category'' = 0) (df_rows example_df)\<rparr>) =
     Inr (example_df\<lparr>df_rows := filter (\<lambda>r. r ''category'' = 0) (df_rows example_df)\<rparr>) \<and>
   single_plot_data (example_cf example_df [''category''])
      (Some (example_df\<lparr>df_rows := filter (\<lambda>r. r ''category'' = 0) (df_rows example_df)\<rparr>))
      (Some [DiscreteFacet ''category'' ''A'' 0]) =
     Inr (example_df\<lparr>df_rows := filter (\<lambda>r. r ''category'' = 0) (df_rows example_df)\<rparr>, True) \<and>
   length (filter (\<lambda>r. r ''category'' = 0) (df_rows example_df)) = 5"
proof -
  let ?f = "DiscreteFacet ''category'' ''A'' (0::rat)"
  let ?d1 = "example_df\<lparr>df_rows := filter (\<lambda>r. r ''category'' = 0) (df_rows example_df)\<rparr>"
  have a: "facet_filter ?f example_df = Inr ?d1"
    by (simp add: mask_filter_eq) (simp add: example_df_def)
  have b: "facet_data [?f] example_df = Inr ?d1" using a by simp
  have c: "set [?f] \<subseteq> set [?f]" by simp
  have n: "length (filter (\<lambda>r. r ''category'' = 0) (df_rows example_df)) = 5"
    by (simp add: example_df_def example_row_def)
  from facet_filter_idempotent[of ?f example_df ?d1 "[?f]" "[?f]" "example_cf example_df [''category'']"]
    a b c n
  show ?thesis by blast
qed

subsection \<open>Discrete facets partition the data\<close>








subsection \<open>Quantile facets partition the data\<close>







subsection \<open>Validation of a bar plot\<close>

lemma new_plugin_fields:
  "p_cls (new_plugin cls cf src ttl fct) = cls"
  "p_x (new_plugin cls cf src ttl fct) = cf_x cf"
  "p_y (new_plugin cls cf src ttl fct) = cf_y cf"
  "p_agg (new_plugin cls cf src ttl fct) = cf_agg cf"
  "p_source (new_plugin cls cf src ttl fct) = src"
  "p_facet (new_plugin cls cf src ttl fct) = fct"
  "p_col_meta (new_plugin cls cf src ttl fct) = column_descriptor_dict (cf_columns cf)"
  "p_valid_plot (new_plugin cls cf src ttl fct) = True"
  by (simp_all add: new_plugin_def Let_def)

lemma base_validate_plot:
  assumes "p_facet p \<or> (p_x p \<in> set (df_columns (p_source p)) \<and> p_y p \<in> set (df_columns (p_source p)))"
  shows "CrossFilterPlugin_validate_plot p =
     Inr (if \<not> p_facet p \<and> df_rows (p_source p) = []
          then p\<lparr>p_title := ''All data is filtered out.'', p_valid_plot := False\<rparr> else p)"
  using assms by (auto simp: CrossFilterPlugin_validate_plot_def column_def)

text \<open>
  C4. On a newly made bar plugin whose y column is described, and whose x and y columns
  are in its source unless it is a facet cell, \<^verbatim>\<open>validate_plot\<close> returns, and the plot is
  invalid exactly when the y column is Discrete, or x equals y, or the filtered subset
  is empty; in every other case it is valid and keeps its title. Each case sets its own
  diagnostic title; when several apply, the title is that of the last check (empty
  subset, then same column, then discrete y). Nothing else of the plugin changes.
\<close>

theorem bar_validate_plot:
  assumes "column_descriptor_dict (cf_columns cf) (cf_y cf) = Some m"
    "fct \<or> (cf_x cf \<in> set (df_columns src) \<and> cf_y cf \<in> set (df_columns src))"
  shows "\<exists>p'. validate_plot (new_plugin Bar cf src ttl fct) = Inr p' \<and>
     p_valid_plot p' = (\<not> (ctype m = DiscreteColumn \<or> cf_x cf = cf_y cf \<or> df_empty src)) \<and>
     p_title p' =
       (if df_empty src then ''All data is filtered out''
        else if cf_x cf = cf_y cf then ''Bar does not support x and y of same column''
        else if ctype m = DiscreteColumn then ''Bar does not support discrete y column''
        else p_title (new_plugin Bar cf src ttl fct)) \<and>
     p' = (new_plugin Bar cf src ttl fct)\<lparr>p_title := p_title p', p_valid_plot := p_valid_plot p'\<rparr>"
proof -
  let ?p = "new_plugin Bar cf src ttl fct"
  have b: "CrossFilterPlugin_validate_plot ?p =
     Inr (if \<not> fct \<and> df_rows src = []
          then ?p\<lparr>p_title := ''All data is filtered out.'', p_valid_plot := False\<rparr> else ?p)"
    using base_validate_plot[of ?p] assms(2) by (simp add: new_plugin_fields)
  show ?thesis
    using assms(1)
    by (simp add: validate_plot_def CrossBarPlugin_validate_plot_def b y_type_def new_plugin_fields
        Let_def df_empty_def)
qed

theorem bar_validate_plot_witness:
  "(\<exists>p'. validate_plot (new_plugin Bar (example_cf example_df []) example_df None False) = Inr p' \<and>
      p_valid_plot p' = True \<and> p_title p' = ''sum(value) by category'') \<and>
   (\<exists>p'. validate_plot (new_plugin Bar (example_cf example_df [])
             (example_df\<lparr>df_rows := []\<rparr>) None False) = Inr p' \<and>
      p_valid_plot p' = False \<and> p_title p' = ''All data is filtered out'')"
proof -
  let ?cf = "example_cf example_df []"
  have h1: "column_descriptor_dict (cf_columns ?cf) (cf_y ?cf) =
              Some \<lparr>name = ''value'', ctype = ContinuousColumn\<rparr>"
    by (simp add: example_xy example_cdd)
  have h2: "False \<or> (cf_x ?cf \<in> set (df_columns example_df) \<and> cf_y ?cf \<in> set (df_columns example_df))"
    by (simp add: example_xy example_df_def)
  have h3: "False \<or> (cf_x ?cf \<in> set (df_columns (example_df\<lparr>df_rows := []\<rparr>)) \<and>
                    cf_y ?cf \<in> set (df_columns (example_df\<lparr>df_rows := []\<rparr>)))"
    by (simp add: example_xy example_df_def)
  have t: "p_title (new_plugin Bar ?cf src None False) = ''sum(value) by category''" for src
    by (simp add: new_plugin_def title_def CrossBarPlugin_title_def example_xy Let_def)
  have e1: "\<not> df_empty example_df" by (simp add: df_empty_def example_df_def)
  have e2: "df_empty (example_df\<lparr>df_rows := []\<rparr>)" by (simp add: df_empty_def)
  from bar_validate_plot[OF h1 h2, of None] e1
  have a: "\<exists>p'. validate_plot (new_plugin Bar ?cf example_df None False) = Inr p' \<and>
      p_valid_plot p' = True \<and> p_title p' = ''sum(value) by category''"
    by (auto simp: example_xy t)
  from bar_validate_plot[OF h1 h3, of None] e2
  have b: "\<exists>p'. validate_plot (new_plugin Bar ?cf (example_df\<lparr>df_rows := []\<rparr>) None False) = Inr p' \<and>
      p_valid_plot p' = False \<and> p_title p' = ''All data is filtered out''"
    by (auto simp: example_xy)
  from a b show ?thesis by blast
qed

subsection \<open>A failed rebuild keeps the display\<close>

lemma set_plot_frame:
  "set_plot tk cf = (cf', err) \<Longrightarrow>
     cf_columns cf' = cf_columns cf \<and> cf_df cf' = cf_df cf \<and> cf_data cf' = cf_data cf \<and>
     cf_filtered_data cf' = cf_filtered_data cf \<and> cf_filter_sources cf' = cf_filter_sources cf \<and>
     cf_filter_widgets cf' = cf_filter_widgets cf \<and> cf_filtering_columns cf' = cf_filtering_columns cf \<and>
     cf_x cf' = cf_x cf \<and> cf_y cf' = cf_y cf \<and> cf_agg cf' = cf_agg cf \<and>
     cf_plot_type cf' = cf_plot_type cf \<and>
     (err \<noteq> None \<longrightarrow> cf_plot cf' = cf_plot cf)"
  by (auto simp: set_plot_def update_xy_ranges_def split: sum.splits prod.splits)

lemma make_xy_ranges_unknown_x:
  "column_descriptor_dict (cf_columns cf) (cf_x cf) = None \<Longrightarrow> make_xy_ranges tk cf = Inl KeyError"
  by (simp add: make_xy_ranges_def CrossFilterPlugin_make_xy_ranges_def CrossBarPlugin_make_xy_ranges_def
      axis_range_def get_plot_class_def split: plot_type.splits)

text \<open>
  C7. When \<^verbatim>\<open>set_plot\<close> raises, whether called directly or by \<^verbatim>\<open>plot_attribute_change\<close>
  after the attribute was written, the property \<^verbatim>\<open>plot\<close> holds the value it had before:
  it is assigned only after \<^verbatim>\<open>make_plot\<close> has returned. In particular, selecting an x
  that no column descriptor names raises \<^verbatim>\<open>KeyError\<close> while the ranges are computed and
  changes nothing but \<^verbatim>\<open>x\<close>.
\<close>

theorem failed_rebuild_keeps_plot:
  "(set_plot tk cf = (cf', Some e) \<longrightarrow> cf_plot cf' = cf_plot cf) \<and>
   (plot_attribute_change tk cf chg = (cf', Some e) \<longrightarrow> cf_plot cf' = cf_plot cf) \<and>
   (column_descriptor_dict (cf_columns cf) c = None \<longrightarrow>
      plot_attribute_change tk cf (Set_x c) = (cf\<lparr>cf_x := c\<rparr>, Some KeyError))"
proof (intro conjI impI)
  assume "set_plot tk cf = (cf', Some e)"
  from set_plot_frame[OF this] show "cf_plot cf' = cf_plot cf" by simp
next
  assume "plot_attribute_change tk cf chg = (cf', Some e)"
  then have "set_plot tk (setattr cf chg) = (cf', Some e)" by (simp add: plot_attribute_change_def)
  from set_plot_frame[OF this] have "cf_plot cf' = cf_plot (setattr cf chg)" by simp
  then show "cf_plot cf' = cf_plot cf" by (cases chg) (simp_all add: setattr_def)
next
  assume "column_descriptor_dict (cf_columns cf) c = None"
  then have "make_xy_ranges tk (cf\<lparr>cf_x := c\<rparr>) = Inl KeyError"
    by (intro make_xy_ranges_unknown_x) simp
  then show "plot_attribute_change tk cf (Set_x c) = (cf\<lparr>cf_x := c\<rparr>, Some KeyError)"
    by (simp add: plot_attribute_change_def setattr_def set_plot_def update_xy_ranges_def)
qed

theorem failed_rebuild_keeps_plot_witness:
  "plot_attribute_change example_tk ((example_cf example_df [])\<lparr>cf_plot := Some (Page (Plot blank))\<rparr>)
      (Set_x ''nope'') =
     ((example_cf example_df [])\<lparr>cf_plot := Some (Page (Plot blank)), cf_x := ''nope''\<rparr>, Some KeyError) \<and>
   cf_plot (fst (plot_attribute_change example_tk
      ((example_cf example_df [])\<lparr>cf_plot := Some (Page (Plot blank))\<rparr>) (Set_x ''nope''))) =
     Some (Page (Plot blank))"
proof -
  let ?cf = "(example_cf example_df [])\<lparr>cf_plot := Some (Page (Plot blank))\<rparr>"
  have n: "column_descriptor_dict (cf_columns ?cf) ''nope'' = None"
    by (simp add: column_descriptor_dict_def example_cf_def)
  note r = failed_rebuild_keeps_plot[of example_tk ?cf "?cf\<lparr>cf_x := ''nope''\<rparr>" KeyError "Set_x ''nope''" "''nope''"]
  from r n have a: "plot_attribute_change example_tk ?cf (Set_x ''nope'') = (?cf\<lparr>cf_x := ''nope''\<rparr>, Some KeyError)"
    by blast
  with r have "cf_plot (?cf\<lparr>cf_x := ''nope''\<rparr>) = cf_plot ?cf" by blast
  with a show ?thesis by simp
qed

subsection \<open>An empty selection filters nothing\<close>

lemma filter_column_empty:
  "selection_empty cf descr \<Longrightarrow> filter_column cf descr d = Inr d"
  by (auto simp: selection_empty_def filter_column_def Let_def
      split: if_splits option.splits widget.splits selection.splits)

lemma filter_columns_skip_empty:
  "filter_columns cf cols d = filter_columns cf (filter (\<lambda>x. \<not> selection_empty cf x) cols) d"
  by (induction cols arbitrary: d) (auto simp: filter_column_empty split: sum.splits)

lemma filter_columns_all_empty:
  "\<forall>descr \<in> set cols. selection_empty cf descr \<Longrightarrow> filter_columns cf cols d = Inr d"
  by (induction cols arbitrary: d) (auto simp: filter_column_empty)

lemma filter_column_no_widget:
  "cf_filter_widgets cf (name descr) = None \<Longrightarrow> filter_column cf descr d = Inr d"
  by (auto simp: filter_column_def Let_def dom_def)

text \<open>
  C10. In the loop of \<^verbatim>\<open>handle_filter_selection\<close>, a column whose widget has an empty
  selection (an empty value of the widget of a Discrete column, an empty selection of
  the filter source of another column) leaves the frame as it is: all rows are retained
  with respect to that column. So the loop gives what it gives on the columns whose
  selection is not empty, and when every selection is empty the filtered data are the
  full data.
\<close>

theorem empty_selection_no_constraint:
  "(ctype descr = DiscreteColumn \<and> cf_filter_widgets cf (name descr) = Some (InputWidget (SelList [])) \<longrightarrow>
      filter_column cf descr d = Inr d) \<and>
   (ctype descr = DiscreteColumn \<and> cf_filter_widgets cf (name descr) = Some (InputWidget (SelString [])) \<longrightarrow>
      filter_column cf descr d = Inr d) \<and>
   (ctype descr \<noteq> DiscreteColumn \<and> cf_filter_widgets cf (name descr) = Some w \<and>
    cf_filter_sources cf (name descr) = Some obj \<and> selected obj = [] \<longrightarrow>
      filter_column cf descr d = Inr d) \<and>
   (selection_empty cf descr \<longrightarrow> filter_column cf descr d = Inr d) \<and>
   filter_columns cf cols d = filter_columns cf (filter (\<lambda>x. \<not> selection_empty cf x) cols) d \<and>
   ((\<forall>x \<in> set (cf_columns cf). selection_empty cf x) \<longrightarrow> cf_df cf = None \<longrightarrow>
      handle_filter_selection tk cf = set_plot tk (cf\<lparr>cf_filtered_data := cf_data cf\<rparr>))"
proof (intro conjI impI)
  assume "ctype descr = DiscreteColumn \<and> cf_filter_widgets cf (name descr) = Some (InputWidget (SelList []))"
  then have "selection_empty cf descr" by (simp add: selection_empty_def)
  then show "filter_column cf descr d = Inr d" by (rule filter_column_empty)
next
  assume "ctype descr = DiscreteColumn \<and> cf_filter_widgets cf (name descr) = Some (InputWidget (SelString []))"
  then have "selection_empty cf descr" by (simp add: selection_empty_def)
  then show "filter_column cf descr d = Inr d" by (rule filter_column_empty)
next
  assume "ctype descr \<noteq> DiscreteColumn \<and> cf_filter_widgets cf (name descr) = Some w \<and>
    cf_filter_sources cf (name descr) = Some obj \<and> selected obj = []"
  then have "selection_empty cf descr" by (auto simp: selection_empty_def)
  then show "filter_column cf descr d = Inr d" by (rule filter_column_empty)
next
  assume "selection_empty cf descr"
  then show "filter_column cf descr d = Inr d" by (rule filter_column_empty)
next
  show "filter_columns cf cols d = filter_columns cf (filter (\<lambda>x. \<not> selection_empty cf x) cols) d"
    by (rule filter_columns_skip_empty)
next
  assume a: "\<forall>x \<in> set (cf_columns cf). selection_empty cf x" and n: "cf_df cf = None"
  have d: "df cf = cf_data cf" using n by (simp add: df_def)
  have f: "filter_columns cf (cf_columns cf) (df cf) = Inr (cf_data cf)"
    using filter_columns_all_empty[OF a] d by simp
  have r: "\<lparr>df_columns = df_columns (cf_data cf), df_rows = df_rows (cf_data cf)\<rparr> = cf_data cf"
    by simp
  show "handle_filter_selection tk cf = set_plot tk (cf\<lparr>cf_filtered_data := cf_data cf\<rparr>)"
    unfolding handle_filter_selection_def f by (simp add: r)
qed

theorem empty_selection_no_constraint_witness:
  "filter_column
     ((example_cf example_df [])
        \<lparr>cf_filter_sources := [''value'' \<mapsto> \<lparr>centers = [2, 5, 8], selected = []\<rparr>],
         cf_filter_widgets := [''category'' \<mapsto> InputWidget (SelList []), ''value'' \<mapsto> HistogramPlot]\<rparr>)
     \<lparr>name = ''category'', ctype = DiscreteColumn\<rparr> example_df = Inr example_df \<and>
   filter_column
     ((example_cf example_df [])
        \<lparr>cf_filter_sources := [''value'' \<mapsto> \<lparr>centers = [2, 5, 8], selected = []\<rparr>],
         cf_filter_widgets := [''category'' \<mapsto> InputWidget (SelList []), ''value'' \<mapsto> HistogramPlot]\<rparr>)
     \<lparr>name = ''value'', ctype = ContinuousColumn\<rparr> example_df = Inr example_df \<and>
   handle_filter_selection example_tk
     ((example_cf example_df [])
        \<lparr>cf_filter_sources := [''value'' \<mapsto> \<lparr>centers = [2, 5, 8], selected = []\<rparr>],
         cf_filter_widgets := [''category'' \<mapsto> InputWidget (SelList []), ''value'' \<mapsto> HistogramPlot]\<rparr>) =
   set_plot example_tk
     ((example_cf example_df [])
        \<lparr>cf_filter_sources := [''value'' \<mapsto> \<lparr>centers = [2, 5, 8], selected = []\<rparr>],
         cf_filter_widgets := [''category'' \<mapsto> InputWidget (SelList []), ''value'' \<mapsto> HistogramPlot],
         cf_filtered_data := example_df\<rparr>)"
proof -
  let ?cf = "(example_cf example_df [])
        \<lparr>cf_filter_sources := [''value'' \<mapsto> \<lparr>centers = [2, 5, 8], selected = []\<rparr>],
         cf_filter_widgets := [''category'' \<mapsto> InputWidget (SelList []), ''value'' \<mapsto> HistogramPlot]\<rparr>"
  let ?c = "\<lparr>name = ''category'', ctype = DiscreteColumn\<rparr>"
  let ?v = "\<lparr>name = ''value'', ctype = ContinuousColumn\<rparr>"
  have h1: "ctype ?c = DiscreteColumn \<and> cf_filter_widgets ?cf (name ?c) = Some (InputWidget (SelList []))"
    by simp
  have h2: "ctype ?v \<noteq> DiscreteColumn \<and> cf_filter_widgets ?cf (name ?v) = Some HistogramPlot \<and>
    cf_filter_sources ?cf (name ?v) = Some \<lparr>centers = [2, 5, 8], selected = []\<rparr> \<and>
    selected \<lparr>centers = [2 :: rat, 5, 8], selected = []\<rparr> = []"
    by simp
  have cols: "cf_columns ?cf = [?c, ?v]" by (simp add: example_cf_def)
  have h3: "\<forall>x \<in> set (cf_columns ?cf). selection_empty ?cf x"
    unfolding cols by (simp add: selection_empty_def)
  have h4: "cf_df ?cf = None" by (simp add: example_cf_def)
  have h5: "cf_data ?cf = example_df" by (simp add: example_cf_def)
  from empty_selection_no_constraint[where descr = ?c and cf = ?cf and d = example_df] h1
  have a: "filter_column ?cf ?c example_df = Inr example_df" by blast
  from empty_selection_no_constraint[where descr = ?v and cf = ?cf and d = example_df
      and w = HistogramPlot and obj = "\<lparr>centers = [2, 5, 8], selected = []\<rparr>"] h2
  have b: "filter_column ?cf ?v example_df = Inr example_df" by blast
  from empty_selection_no_constraint[where cf = ?cf and tk = example_tk] h3 h4
  have "handle_filter_selection example_tk ?cf = set_plot example_tk (?cf\<lparr>cf_filtered_data := cf_data ?cf\<rparr>)"
    by blast
  then have c: "handle_filter_selection example_tk ?cf = set_plot example_tk (?cf\<lparr>cf_filtered_data := example_df\<rparr>)"
    unfolding h5 .
  from a b c show ?thesis by simp
qed

subsection \<open>Removing a column from the filtering columns\<close>

lemma delete_widget_ok:
  assumes "column_descriptor_dict (cf_columns cf) col = Some m" "col \<in> dom (cf_filter_widgets cf)"
    "ctype m \<noteq> DiscreteColumn \<longrightarrow> col \<in> dom (cf_filter_sources cf)"
  shows "delete_widget cf col =
     Inr (cf\<lparr>cf_filter_sources :=
               (if ctype m \<noteq> DiscreteColumn then (cf_filter_sources cf)(col := None)
                else cf_filter_sources cf),
             cf_filter_widgets := (cf_filter_widgets cf)(col := None)\<rparr>)"
  using assms by (auto simp: delete_widget_def)

lemma delete_widgets_ok:
  assumes "distinct cols"
    "\<forall>col \<in> set cols. \<exists>m. column_descriptor_dict (cf_columns cf) col = Some m \<and>
        col \<in> dom (cf_filter_widgets cf) \<and>
        (ctype m \<noteq> DiscreteColumn \<longrightarrow> col \<in> dom (cf_filter_sources cf))"
  shows "delete_widgets cf cols =
     (cf\<lparr>cf_filter_sources := cf_filter_sources cf |` (- continuous_of (cf_columns cf) (set cols)),
         cf_filter_widgets := cf_filter_widgets cf |` (- set cols)\<rparr>, None)"
  using assms
proof (induction cols arbitrary: cf)
  case Nil
  then show ?case by (simp add: continuous_of_def)
next
  case (Cons col cols)
  from Cons.prems(2) obtain m where m: "column_descriptor_dict (cf_columns cf) col = Some m"
    "col \<in> dom (cf_filter_widgets cf)" "ctype m \<noteq> DiscreteColumn \<longrightarrow> col \<in> dom (cf_filter_sources cf)"
    by auto
  let ?S1 = "if ctype m \<noteq> DiscreteColumn then (cf_filter_sources cf)(col := None) else cf_filter_sources cf"
  let ?cf1 = "cf\<lparr>cf_filter_sources := ?S1, cf_filter_widgets := (cf_filter_widgets cf)(col := None)\<rparr>"
  have dw: "delete_widget cf col = Inr ?cf1" by (rule delete_widget_ok[OF m])
  have c1: "cf_columns ?cf1 = cf_columns cf" by simp
  have w1: "cf_filter_widgets ?cf1 = (cf_filter_widgets cf)(col := None)" by simp
  have s1: "cf_filter_sources ?cf1 = ?S1" by simp
  have pre: "\<forall>c \<in> set cols. \<exists>m. column_descriptor_dict (cf_columns ?cf1) c = Some m \<and>
        c \<in> dom (cf_filter_widgets ?cf1) \<and>
        (ctype m \<noteq> DiscreteColumn \<longrightarrow> c \<in> dom (cf_filter_sources ?cf1))"
  proof
    fix c assume c: "c \<in> set cols"
    with Cons.prems(1) have ne: "c \<noteq> col" by auto
    from c have "c \<in> set (col # cols)" by simp
    with Cons.prems(2) obtain m' where "column_descriptor_dict (cf_columns cf) c = Some m'"
      "c \<in> dom (cf_filter_widgets cf)" "ctype m' \<noteq> DiscreteColumn \<longrightarrow> c \<in> dom (cf_filter_sources cf)"
      by blast
    with ne show "\<exists>m. column_descriptor_dict (cf_columns ?cf1) c = Some m \<and>
        c \<in> dom (cf_filter_widgets ?cf1) \<and>
        (ctype m \<noteq> DiscreteColumn \<longrightarrow> c \<in> dom (cf_filter_sources ?cf1))"
      unfolding c1 w1 s1 by auto
  qed
  from Cons.prems(1) have dc: "distinct cols" by simp
  have ih: "delete_widgets ?cf1 cols =
     (?cf1\<lparr>cf_filter_sources := cf_filter_sources ?cf1 |` (- continuous_of (cf_columns ?cf1) (set cols)),
         cf_filter_widgets := cf_filter_widgets ?cf1 |` (- set cols)\<rparr>, None)"
    by (rule Cons.IH[OF dc pre])
  have ew: "((cf_filter_widgets cf)(col := None)) |` (- set cols) = cf_filter_widgets cf |` (- set (col # cols))"
    by (auto simp: restrict_map_def fun_eq_iff)
  have es: "?S1 |` (- continuous_of (cf_columns cf) (set cols)) =
            cf_filter_sources cf |` (- continuous_of (cf_columns cf) (set (col # cols)))"
    using m(1) by (auto simp: restrict_map_def fun_eq_iff continuous_of_def)
  have "delete_widgets cf (col # cols) = delete_widgets ?cf1 cols" using dw by simp
  also have "\<dots> = (?cf1\<lparr>cf_filter_sources := ?S1 |` (- continuous_of (cf_columns cf) (set cols)),
         cf_filter_widgets := ((cf_filter_widgets cf)(col := None)) |` (- set cols)\<rparr>, None)"
    unfolding ih c1 w1 s1 ..
  also have "\<dots> = (cf\<lparr>cf_filter_sources := cf_filter_sources cf |` (- continuous_of (cf_columns cf) (set (col # cols))),
         cf_filter_widgets := cf_filter_widgets cf |` (- set (col # cols))\<rparr>, None)"
    unfolding ew es by simp
  finally show ?case .
qed

lemma handle_filter_selection_frame:
  assumes "handle_filter_selection tk cf = (cf2, err)"
  shows "cf_filter_widgets cf2 = cf_filter_widgets cf \<and> cf_filter_sources cf2 = cf_filter_sources cf \<and>
     cf_columns cf2 = cf_columns cf \<and> cf_data cf2 = cf_data cf \<and>
     (\<forall>d. filter_columns cf (cf_columns cf) (df cf) = Inr d \<longrightarrow>
          set (df_columns (cf_data cf)) \<subseteq> set (df_columns d) \<longrightarrow>
          cf_filtered_data cf2 = \<lparr>df_columns = df_columns (cf_data cf), df_rows = df_rows d\<rparr>)"
proof (cases "filter_columns cf (cf_columns cf) (df cf)")
  case (Inl e)
  with assms show ?thesis by (simp add: handle_filter_selection_def)
next
  case (Inr d)
  show ?thesis
  proof (cases "set (df_columns (cf_data cf)) \<subseteq> set (df_columns d)")
    case True
    with Inr assms have "set_plot tk (cf\<lparr>cf_filtered_data :=
                       \<lparr>df_columns = df_columns (cf_data cf), df_rows = df_rows d\<rparr>\<rparr>) = (cf2, err)"
      by (simp add: handle_filter_selection_def)
    from set_plot_frame[OF this] Inr show ?thesis by simp
  next
    case False
    with Inr assms show ?thesis by (simp add: handle_filter_selection_def)
  qed
qed

lemma filter_columns_restrict:
  assumes "\<forall>descr \<in> set cols. \<forall>d. filter_column cf1 descr d =
             (if name descr \<in> A then Inr d else filter_column cf descr d)"
  shows "filter_columns cf1 cols d = filter_columns cf (filter (\<lambda>descr. name descr \<notin> A) cols) d"
  using assms by (induction cols arbitrary: d) (auto split: sum.splits)

lemma filter_column_cong:
  "cf_filter_widgets cf1 (name descr) = cf_filter_widgets cf (name descr) \<Longrightarrow>
   cf_filter_sources cf1 (name descr) = cf_filter_sources cf (name descr) \<Longrightarrow>
   filter_column cf1 descr d = filter_column cf descr d"
  by (simp add: filter_column_def dom_def Let_def)

lemma filter_columns_no_widgets:
  "\<forall>descr \<in> set cols. cf_filter_widgets cf (name descr) = None \<Longrightarrow>
   filter_columns cf cols d = Inr d"
  by (induction cols arbitrary: d) (auto simp: filter_column_no_widget)

text \<open>
  C8. Let the columns removed from the filtering columns (\<^verbatim>\<open>set(old) - set(new)\<close>, not
  empty) each be described and have a filter widget, and a filter source if not
  Discrete. Then \<^verbatim>\<open>clear_selections\<close> deletes the widget of every removed column, and the
  filter source of every removed column that is not Discrete, and then runs
  \<^verbatim>\<open>handle_filter_selection\<close> on that state: the filtered data are recomputed from the
  full data by the loop over the columns that were not removed, so without the removed
  columns' constraints. In particular, when no other column has a widget, the filtered
  data are the full data again.
\<close>

theorem removed_filter_is_dropped:
  assumes "\<forall>col \<in> set old - set new. \<exists>m. column_descriptor_dict (cf_columns cf) col = Some m \<and>
        col \<in> dom (cf_filter_widgets cf) \<and>
        (ctype m \<noteq> DiscreteColumn \<longrightarrow> col \<in> dom (cf_filter_sources cf))"
    and "set old - set new \<noteq> {}"
  shows "\<exists>cf1 cf2 err.
     cf1 = cf\<lparr>cf_filter_sources :=
                cf_filter_sources cf |` (- continuous_of (cf_columns cf) (set old - set new)),
              cf_filter_widgets := cf_filter_widgets cf |` (- (set old - set new))\<rparr> \<and>
     clear_selections tk cf old new = handle_filter_selection tk cf1 \<and>
     clear_selections tk cf old new = (cf2, err) \<and>
     cf_filter_widgets cf2 = cf_filter_widgets cf |` (- (set old - set new)) \<and>
     cf_filter_sources cf2 =
       cf_filter_sources cf |` (- continuous_of (cf_columns cf) (set old - set new)) \<and>
     filter_columns cf1 (cf_columns cf) (df cf) =
       filter_columns cf (filter (\<lambda>descr. name descr \<notin> set old - set new) (cf_columns cf)) (df cf) \<and>
     (\<forall>d. filter_columns cf (filter (\<lambda>descr. name descr \<notin> set old - set new) (cf_columns cf)) (df cf)
            = Inr d \<longrightarrow>
          set (df_columns (cf_data cf)) \<subseteq> set (df_columns d) \<longrightarrow>
          cf_filtered_data cf2 = \<lparr>df_columns = df_columns (cf_data cf), df_rows = df_rows d\<rparr>) \<and>
     (dom (cf_filter_widgets cf) \<subseteq> set old - set new \<longrightarrow> cf_df cf = None \<longrightarrow>
        cf_filtered_data cf2 = cf_data cf)"
proof -
  let ?A = "set old - set new"
  let ?diff = "remdups (filter (\<lambda>c. c \<notin> set new) old)"
  let ?cf1 = "cf\<lparr>cf_filter_sources := cf_filter_sources cf |` (- continuous_of (cf_columns cf) ?A),
              cf_filter_widgets := cf_filter_widgets cf |` (- ?A)\<rparr>"
  let ?cols = "filter (\<lambda>descr. name descr \<notin> ?A) (cf_columns cf)"
  have sd: "set ?diff = ?A" by auto
  have dd: "distinct ?diff" by simp
  have ne: "?diff \<noteq> []" using assms(2) sd by (metis empty_set)
  have pre: "\<forall>col \<in> set ?diff. \<exists>m. column_descriptor_dict (cf_columns cf) col = Some m \<and>
        col \<in> dom (cf_filter_widgets cf) \<and>
        (ctype m \<noteq> DiscreteColumn \<longrightarrow> col \<in> dom (cf_filter_sources cf))"
    using assms(1) unfolding sd .
  have dw: "delete_widgets cf ?diff = (?cf1, None)"
    using delete_widgets_ok[OF dd pre] unfolding sd .
  have cs: "clear_selections tk cf old new = handle_filter_selection tk ?cf1"
    unfolding clear_selections_def Let_def dw using ne by simp
  obtain cf2 err where h: "handle_filter_selection tk ?cf1 = (cf2, err)"
    by (cases "handle_filter_selection tk ?cf1")
  have c1: "cf_columns ?cf1 = cf_columns cf" "df ?cf1 = df cf" "cf_data ?cf1 = cf_data cf"
    "cf_filter_widgets ?cf1 = cf_filter_widgets cf |` (- ?A)"
    "cf_filter_sources ?cf1 = cf_filter_sources cf |` (- continuous_of (cf_columns cf) ?A)"
    by (simp_all add: df_def split: option.splits)
  note fr = handle_filter_selection_frame[OF h, unfolded c1]
  have st: "\<forall>descr \<in> set (cf_columns cf). \<forall>d. filter_column ?cf1 descr d =
             (if name descr \<in> ?A then Inr d else filter_column cf descr d)"
  proof (intro ballI allI)
    fix descr d
    show "filter_column ?cf1 descr d = (if name descr \<in> ?A then Inr d else filter_column cf descr d)"
    proof (cases "name descr \<in> ?A")
      case True
      then have "cf_filter_widgets ?cf1 (name descr) = None" unfolding c1 by simp
      from filter_column_no_widget[OF this] have "filter_column ?cf1 descr d = Inr d" .
      with True show ?thesis by (simp only: if_True)
    next
      case False
      then have "cf_filter_widgets ?cf1 (name descr) = cf_filter_widgets cf (name descr)"
        "cf_filter_sources ?cf1 (name descr) = cf_filter_sources cf (name descr)"
        unfolding c1 by (auto simp: continuous_of_def)
      from filter_column_cong[OF this] have "filter_column ?cf1 descr d = filter_column cf descr d" .
      with False show ?thesis by (simp only: if_False)
    qed
  qed
  have fc: "filter_columns ?cf1 (cf_columns cf) (df cf) = filter_columns cf ?cols (df cf)"
    by (rule filter_columns_restrict[OF st])
  have fd: "\<forall>d. filter_columns cf ?cols (df cf) = Inr d \<longrightarrow>
          set (df_columns (cf_data cf)) \<subseteq> set (df_columns d) \<longrightarrow>
          cf_filtered_data cf2 = \<lparr>df_columns = df_columns (cf_data cf), df_rows = df_rows d\<rparr>"
    using fr unfolding fc by blast
  have al: "dom (cf_filter_widgets cf) \<subseteq> ?A \<longrightarrow> cf_df cf = None \<longrightarrow> cf_filtered_data cf2 = cf_data cf"
  proof (intro impI)
    assume sub: "dom (cf_filter_widgets cf) \<subseteq> ?A" and n: "cf_df cf = None"
    have "\<forall>descr \<in> set ?cols. cf_filter_widgets cf (name descr) = None" using sub by auto
    then have "filter_columns cf ?cols d = Inr d" for d
      by (rule filter_columns_no_widgets)
    then have "filter_columns cf ?cols (df cf) = Inr (cf_data cf)" using n by (simp add: df_def)
    with fd have "cf_filtered_data cf2 =
        \<lparr>df_columns = df_columns (cf_data cf), df_rows = df_rows (cf_data cf)\<rparr>" by blast
    then show "cf_filtered_data cf2 = cf_data cf" by simp
  qed
  show ?thesis
    apply (rule exI[of _ ?cf1], rule exI[of _ cf2], rule exI[of _ err])
    using cs h fr fc fd al by (intro conjI) simp_all
qed

theorem removed_filter_is_dropped_witness:
  "\<exists>cf2 err.
     clear_selections example_tk
       ((example_cf example_df [])
          \<lparr>cf_filtered_data :=
             example_df\<lparr>df_rows := filter (\<lambda>r. r ''category'' = 0) (df_rows example_df)\<rparr>,
           cf_filtering_columns := [''category''],
           cf_filter_widgets := [''category'' \<mapsto> InputWidget (SelList [0])]\<rparr>)
       [''category''] [] = (cf2, err) \<and>
     cf_filter_widgets cf2 ''category'' = None \<and>
     cf_filtered_data cf2 = example_df"
proof -
  let ?cf = "(example_cf example_df [])
          \<lparr>cf_filtered_data :=
             example_df\<lparr>df_rows := filter (\<lambda>r. r ''category'' = 0) (df_rows example_df)\<rparr>,
           cf_filtering_columns := [''category''],
           cf_filter_widgets := [''category'' \<mapsto> InputWidget (SelList [0])]\<rparr>"
  have cols: "cf_columns ?cf = cf_columns (example_cf example_df [])" by simp
  have h1: "\<forall>col \<in> set [''category''] - set []. \<exists>m. column_descriptor_dict (cf_columns ?cf) col = Some m \<and>
        col \<in> dom (cf_filter_widgets ?cf) \<and>
        (ctype m \<noteq> DiscreteColumn \<longrightarrow> col \<in> dom (cf_filter_sources ?cf))"
    unfolding cols by (simp add: example_cdd)
  have h2: "set [''category''] - set [] \<noteq> ({} :: string set)" by simp
  have h3: "dom (cf_filter_widgets ?cf) \<subseteq> set [''category''] - set []" by simp
  have h4: "cf_df ?cf = None" by (simp add: example_cf_def)
  have h5: "cf_data ?cf = example_df" by (simp add: example_cf_def)
  from removed_filter_is_dropped[OF h1 h2, of example_tk]
  obtain cf2 err where r:
    "clear_selections example_tk ?cf [''category''] [] = (cf2, err)"
    "cf_filter_widgets cf2 = cf_filter_widgets ?cf |` (- (set [''category''] - set []))"
    "dom (cf_filter_widgets ?cf) \<subseteq> set [''category''] - set [] \<longrightarrow> cf_df ?cf = None \<longrightarrow>
        cf_filtered_data cf2 = cf_data ?cf"
    by (elim exE conjE) (rule that, assumption+)
  from r(2) have a: "cf_filter_widgets cf2 ''category'' = None" by simp
  from r(3) h3 h4 h5 have b: "cf_filtered_data cf2 = example_df" by simp
  from r(1) a b show ?thesis by blast
qed

end
